theory Spec2Isabelle
  imports Main "HOL-Library.Sublist"
begin

section \<open>The files manager: data model\<close>

text \<open>
  The controllers of \<^verbatim>\<open>src/controllers/AuthController.js\<close> (the file holds
  \<^verbatim>\<open>AuthController\<close>, \<^verbatim>\<open>UsersController\<close> and \<^verbatim>\<open>FilesController\<close>) are embedded as
  functions from a request and the state of the backing stores to a response and the new
  state. An \<^verbatim>\<open>ObjectId\<close> is a 12-byte value, read here as the number it encodes; raw
  bytes are a \<open>string\<close>.
\<close>

type_synonym oid = nat
type_synonym bytes = string

text \<open>
  The library functions the controllers call are not part of the repository and are taken
  as parameters: \<^verbatim>\<open>ObjectId(s)\<close> of the database driver (\<open>None\<close> when it throws on
  a string that is no id), \<^verbatim>\<open>toString()\<close> of an id, \<^verbatim>\<open>mime.lookup\<close> (\<open>None\<close> for
  its \<^verbatim>\<open>false\<close>), \<^verbatim>\<open>path.join\<close>, the base64 decoding of \<^verbatim>\<open>Buffer.from\<close>
  (to bytes, and to a string with \<^verbatim>\<open>toString('ascii')\<close>), \<^verbatim>\<open>sha1\<close>, and the
  environment variable \<^verbatim>\<open>FOLDER_PATH\<close>.
\<close>

record env =
  ObjectId :: "string \<Rightarrow> oid option"
  oid_toString :: "oid \<Rightarrow> string"
  mime_lookup :: "string \<Rightarrow> string option"
  path_join :: "string \<Rightarrow> string \<Rightarrow> string"
  base64_decode :: "string \<Rightarrow> bytes"
  base64_ascii :: "string \<Rightarrow> string"
  sha1 :: "string \<Rightarrow> string"
  FOLDER_PATH :: "string option"

text \<open>
  What a single request draws from outside the program: the \<^verbatim>\<open>_id\<close> the driver gives
  the inserted document, the value of \<^verbatim>\<open>uuidv4()\<close>, and the outcome of the promise
  \<^verbatim>\<open>fileQueue.add\<close> or \<^verbatim>\<open>userQueue.add\<close> returns (whether the queue accepts the job),
  which the controller never awaits.
\<close>

record draws =
  insertedId :: oid
  uuidv4 :: string
  queue_accepts :: bool

text \<open>The stored parent reference: the string \<^verbatim>\<open>'0'\<close> for the root, or the id of a node.\<close>

datatype parent_ref = Root | Parent oid

text \<open>
  \<^verbatim>\<open>folderData\<close> of \<^verbatim>\<open>postUpload\<close>, the fields common to every document; a stored
  document adds \<^verbatim>\<open>_id\<close> and, for a file or an image, \<^verbatim>\<open>localPath\<close>.
\<close>

record folderData =
  userId :: oid
  name :: string
  type :: string
  isPublic :: bool
  parentId :: parent_ref

record file_doc = folderData +
  doc_id :: oid
  localPath :: "string option"

text \<open>A document of the collection \<^verbatim>\<open>users\<close>.\<close>

record user_doc =
  user_id :: oid
  email :: string
  password :: string

text \<open>The job handed to \<^verbatim>\<open>fileQueue.add\<close>: its payload and its options.\<close>

datatype backoff = Backoff (backoff_type: string) (delay: nat)

record job =
  job_fileId :: oid
  job_userId :: string
  attempts :: nat
  job_backoff :: backoff

text \<open>
  The stores. A collection (\<^verbatim>\<open>users\<close>, \<^verbatim>\<open>files\<close>) is the list of its documents in
  insertion order, which is the order an unsorted \<^verbatim>\<open>find\<close> returns them in. The session
  store maps a key to a string. The disk maps a path to the content of the file there.
  \<open>fileQueue\<close> lists the calls of \<^verbatim>\<open>fileQueue.add\<close> in order: the job handed over, and
  whether the queue accepted it; \<open>userQueue\<close> does so for \<^verbatim>\<open>userQueue.add\<close>, whose job
  is the id of the new user. The stores answer every call: an outage, which would end in the
  \<^verbatim>\<open>catch\<close> block of the controller, is not modelled.
\<close>

record state =
  redis :: "string \<rightharpoonup> string"
  users :: "user_doc list"
  files :: "file_doc list"
  disk :: "string \<rightharpoonup> bytes"
  fileQueue :: "(job \<times> bool) list"
  userQueue :: "(oid \<times> bool) list"

text \<open>
  The request: the \<^verbatim>\<open>Authorization\<close> and \<^verbatim>\<open>X-Token\<close> headers, the route parameter
  \<^verbatim>\<open>id\<close>, the fields of the JSON body, and the query string. A field that is absent is
  \<open>None\<close>; a field that is present has the type the controller expects of it (a string,
  or a boolean for \<^verbatim>\<open>isPublic\<close>). \<open>query_page\<close> is the value of
  \<^verbatim>\<open>parseInt(req.query.page, 10)\<close>, \<open>None\<close> when that is \<^verbatim>\<open>NaN\<close>.
\<close>

record req =
  header_Authorization :: "string option"
  header_X_Token :: "string option"
  params_id :: string
  body_email :: "string option"
  body_password :: "string option"
  body_name :: "string option"
  body_type :: "string option"
  body_isPublic :: "bool option"
  body_data :: "string option"
  body_parentId :: "string option"
  query_parentId :: "string option"
  query_page :: "int option"

text \<open>The JSON values the responses are made of.\<close>

datatype json = JString string | JBool bool | JId oid

text \<open>
  The bodies of the responses. \<open>Created i d b\<close> is the object \<^verbatim>\<open>{ id, ...folderData }\<close>
  of \<^verbatim>\<open>postUpload\<close>; \<open>b\<close> tells whether \<^verbatim>\<open>folderData\<close> has the key \<^verbatim>\<open>_id\<close> by then,
  which the driver adds to the object \<^verbatim>\<open>insertOne\<close> is handed: for a folder that object is
  \<^verbatim>\<open>folderData\<close> itself, for a file or an image it is a copy. \<open>Doc None\<close> is \<^verbatim>\<open>null\<close>.
\<close>

datatype body =
  Error string
  | Token string
  | User oid string
  | Created oid folderData bool
  | Doc "file_doc option"
  | Docs "file_doc list"
  | File_content string bytes
  | No_body

record response =
  status :: nat
  body :: body

section \<open>The session store\<close>

text \<open>
  Modelled from the spec: \<^verbatim>\<open>utils/redis.js\<close> (\<^verbatim>\<open>redisClient.get\<close>,
  \<^verbatim>\<open>redisClient.set\<close> and \<^verbatim>\<open>redisClient.del\<close>) is not among the source files. Section
  4.1: issue "stores token\<rightarrow>userId with a 24h expiry", resolve "returns the mapped user id if
  present and unexpired, else none", and revoke "deletes the mapping immediately". The map
  holds the unexpired entries; the passing of time is not modelled.
\<close>

definition redis_set :: "(string \<rightharpoonup> string) \<Rightarrow> string \<Rightarrow> string \<Rightarrow> (string \<rightharpoonup> string)" where
  "redis_set m k v = m(k \<mapsto> v)"

definition redis_get :: "(string \<rightharpoonup> string) \<Rightarrow> string \<Rightarrow> string option" where
  "redis_get m k = m k"

definition redis_del :: "(string \<rightharpoonup> string) \<Rightarrow> string \<Rightarrow> (string \<rightharpoonup> string)" where
  "redis_del m k = m(k := None)"

section \<open>The metadata store\<close>

text \<open>
  \<^verbatim>\<open>findOne\<close> returns the first document that matches, \<^verbatim>\<open>updateOne\<close> with
  \<^verbatim>\<open>$set: { isPublic }\<close> overwrites the flag of the first document with the id, and
  \<^verbatim>\<open>insertOne\<close> appends the document, failing on an \<^verbatim>\<open>_id\<close> the collection already
  holds (\<^verbatim>\<open>_id\<close> is unique in a collection).
\<close>

definition findOne :: "('a \<Rightarrow> bool) \<Rightarrow> 'a list \<Rightarrow> 'a option" where
  "findOne q ds = find q ds"

fun updateOne_isPublic :: "oid \<Rightarrow> bool \<Rightarrow> file_doc list \<Rightarrow> file_doc list" where
  "updateOne_isPublic i b [] = []"
| "updateOne_isPublic i b (d # ds) =
     (if doc_id d = i then d\<lparr>isPublic := b\<rparr> # ds else d # updateOne_isPublic i b ds)"

definition insertOne :: "file_doc \<Rightarrow> file_doc list \<Rightarrow> file_doc list option" where
  "insertOne d ds = (if doc_id d \<in> set (map doc_id ds) then None else Some (ds @ [d]))"

definition insertOne_user :: "user_doc \<Rightarrow> user_doc list \<Rightarrow> user_doc list option" where
  "insertOne_user d ds = (if user_id d \<in> set (map user_id ds) then None else Some (ds @ [d]))"

section \<open>The controllers\<close>

text \<open>The truth value JavaScript gives an optional string: false when absent or empty.\<close>

definition truthy :: "string option \<Rightarrow> bool" where
  "truthy x = (case x of None \<Rightarrow> False | Some v \<Rightarrow> v \<noteq> [])"

text \<open>\<^verbatim>\<open>x || d\<close> on an optional string.\<close>

definition or_else :: "string option \<Rightarrow> string \<Rightarrow> string" where
  "or_else x d = (case x of None \<Rightarrow> d | Some v \<Rightarrow> if v = [] then d else v)"

definition unauthorized :: response where
  "unauthorized = \<lparr>status = 401, body = Error ''Unauthorized''\<rparr>"

definition not_found :: response where
  "not_found = \<lparr>status = 404, body = Error ''Not found''\<rparr>"

definition bad_request :: "string \<Rightarrow> response" where
  "bad_request msg = \<lparr>status = 400, body = Error msg\<rparr>"

text \<open>The \<^verbatim>\<open>catch\<close> block of every controller.\<close>

definition internal_error :: response where
  "internal_error = \<lparr>status = 500, body = Error ''Internal Server Error''\<rparr>"

text \<open>
  The first lines of every authenticated controller: the token of the \<^verbatim>\<open>X-Token\<close>
  header, then the user id stored under \<^verbatim>\<open>auth_<token>\<close>; \<open>None\<close> where the controller
  answers 401 (\<^verbatim>\<open>!token\<close> or \<^verbatim>\<open>!userId\<close>).
\<close>

definition token_user :: "state \<Rightarrow> req \<Rightarrow> string option" where
  "token_user s r =
     (case header_X_Token r of
        None \<Rightarrow> None
      | Some token \<Rightarrow>
          if token = [] then None
          else (case redis_get (redis s) (''auth_'' @ token) of
                  None \<Rightarrow> None
                | Some u \<Rightarrow> if u = [] then None else Some u))"

subsection \<open>AuthController.getConnect\<close>

text \<open>\<^verbatim>\<open>s.split(c)\<close> for a separator of one character: the pieces between its occurrences.\<close>

fun split_on :: "char \<Rightarrow> string \<Rightarrow> string list" where
  "split_on c [] = [[]]"
| "split_on c (x # xs) =
     (if x = c then [] # split_on c xs
      else (case split_on c xs of [] \<Rightarrow> [[x]] | y # ys \<Rightarrow> (x # y) # ys))"

definition getConnect :: "env \<Rightarrow> draws \<Rightarrow> req \<Rightarrow> state \<Rightarrow> response \<times> state" where
  "getConnect E w r s =
     (case header_Authorization r of
        None \<Rightarrow> (unauthorized, s)
      | Some authHeader \<Rightarrow>
          if authHeader = [] \<or> \<not> prefix ''Basic '' authHeader then (unauthorized, s)
          else
            (case split_on CHR '' '' authHeader of
               _ # credEnc # _ \<Rightarrow>
                 let parts = split_on CHR '':'' (base64_ascii E credEnc);
                     em = (case parts of [] \<Rightarrow> None | e # _ \<Rightarrow> Some e);
                     pw = (case parts of _ # p # _ \<Rightarrow> Some p | _ \<Rightarrow> None)
                 in
                 if \<not> truthy em \<or> \<not> truthy pw then (unauthorized, s)
                 else
                   (case findOne (\<lambda>d. email d = the em) (users s) of
                      None \<Rightarrow> (unauthorized, s)
                    | Some user \<Rightarrow>
                        if password user \<noteq> sha1 E (the pw) then (unauthorized, s)
                        else
                          (\<lparr>status = 200, body = Token (uuidv4 w)\<rparr>,
                           s\<lparr>redis := redis_set (redis s) (''auth_'' @ uuidv4 w)
                                       (oid_toString E (user_id user))\<rparr>))
             | _ \<Rightarrow> (internal_error, s)))"

subsection \<open>AuthController.getDisconnect\<close>

definition getDisconnect :: "req \<Rightarrow> state \<Rightarrow> response \<times> state" where
  "getDisconnect r s =
     (case header_X_Token r of
        None \<Rightarrow> (unauthorized, s)
      | Some token \<Rightarrow>
          if token = [] then (unauthorized, s)
          else (case redis_get (redis s) (''auth_'' @ token) of
                  None \<Rightarrow> (unauthorized, s)
                | Some u \<Rightarrow>
                    if u = [] then (unauthorized, s)
                    else (\<lparr>status = 204, body = No_body\<rparr>,
                          s\<lparr>redis := redis_del (redis s) (''auth_'' @ token)\<rparr>)))"

subsection \<open>UsersController.postNew\<close>

definition postNew :: "env \<Rightarrow> draws \<Rightarrow> req \<Rightarrow> state \<Rightarrow> response \<times> state" where
  "postNew E w r s =
     (if \<not> truthy (body_email r) then (bad_request ''Missing email'', s)
      else if \<not> truthy (body_password r) then (bad_request ''Missing password'', s)
      else
        (case findOne (\<lambda>d. email d = the (body_email r)) (users s) of
           Some userExists \<Rightarrow> (bad_request ''Already exist'', s)
         | None \<Rightarrow>
             (case insertOne_user \<lparr>user_id = insertedId w, email = the (body_email r),
                      password = sha1 E (the (body_password r))\<rparr> (users s) of
                None \<Rightarrow> (internal_error, s)
              | Some us \<Rightarrow>
                  (\<lparr>status = 201, body = User (insertedId w) (the (body_email r))\<rparr>,
                   s\<lparr>users := us,
                     userQueue := userQueue s @ [(insertedId w, queue_accepts w)]\<rparr>))))"

subsection \<open>UsersController.getMe\<close>

definition getMe :: "env \<Rightarrow> req \<Rightarrow> state \<Rightarrow> response \<times> state" where
  "getMe E r s =
     (case token_user s r of
        None \<Rightarrow> (unauthorized, s)
      | Some u \<Rightarrow>
          (case ObjectId E u of
             None \<Rightarrow> (internal_error, s)
           | Some uid \<Rightarrow>
               (case findOne (\<lambda>d. user_id d = uid) (users s) of
                  None \<Rightarrow> (unauthorized, s)
                | Some user \<Rightarrow> (\<lparr>status = 200, body = User (user_id user) (email user)\<rparr>, s))))"

subsection \<open>FilesController.postUpload\<close>

text \<open>
  The document \<^verbatim>\<open>{ localPath, ...folderData }\<close> as the collection stores it, with the
  \<^verbatim>\<open>_id\<close> the driver adds; a folder has no \<^verbatim>\<open>localPath\<close>.
\<close>

definition stored :: "oid \<Rightarrow> string option \<Rightarrow> folderData \<Rightarrow> file_doc" where
  "stored i p d =
     \<lparr>userId = userId d, name = name d, type = type d, isPublic = isPublic d,
      parentId = parentId d, doc_id = i, localPath = p\<rparr>"

definition postUpload :: "env \<Rightarrow> draws \<Rightarrow> req \<Rightarrow> state \<Rightarrow> response \<times> state" where
  "postUpload E w r s =
     (case token_user s r of
        None \<Rightarrow> (unauthorized, s)
      | Some u \<Rightarrow>
          if \<not> truthy (body_name r) then (bad_request ''Missing name'', s)
          else if \<not> truthy (body_type r)
                  \<or> the (body_type r) \<notin> set [''folder'', ''file'', ''image'']
            then (bad_request ''Missing type'', s)
          else if \<not> truthy (body_data r) \<and> the (body_type r) \<noteq> ''folder''
            then (bad_request ''Missing data'', s)
          else
            let pid = or_else (body_parentId r) ''0'' in
            (case (if pid \<noteq> ''0''
                   then (case ObjectId E pid of
                           None \<Rightarrow> Inl internal_error
                         | Some p \<Rightarrow>
                             (case findOne (\<lambda>d. doc_id d = p) (files s) of
                                None \<Rightarrow> Inl (bad_request ''Parent not found'')
                              | Some parentFile \<Rightarrow>
                                  if type parentFile \<noteq> ''folder''
                                  then Inl (bad_request ''Parent is not a folder'')
                                  else Inr (Parent p)))
                   else Inr Root) of
               Inl resp \<Rightarrow> (resp, s)
             | Inr parent \<Rightarrow>
                 (case ObjectId E u of
                    None \<Rightarrow> (internal_error, s)
                  | Some uid \<Rightarrow>
                      let data = \<lparr>userId = uid, name = the (body_name r),
                                  type = the (body_type r),
                                  isPublic = (case body_isPublic r of None \<Rightarrow> False | Some b \<Rightarrow> b),
                                  parentId = parent\<rparr>
                      in
                      if the (body_type r) = ''folder''
                      then (case insertOne (stored (insertedId w) None data) (files s) of
                              None \<Rightarrow> (internal_error, s)
                            | Some fs \<Rightarrow>
                                (\<lparr>status = 201, body = Created (insertedId w) data True\<rparr>,
                                 s\<lparr>files := fs\<rparr>))
                      else
                        let folderName = or_else (FOLDER_PATH E) ''/tmp/files_manager'';
                            path = path_join E folderName (uuidv4 w);
                            s1 = s\<lparr>disk := (disk s)(path \<mapsto> base64_decode E (the (body_data r)))\<rparr>
                        in
                        (case insertOne (stored (insertedId w) (Some path) data) (files s1) of
                           None \<Rightarrow> (internal_error, s1)
                         | Some fs \<Rightarrow>
                             let s2 = s1\<lparr>files := fs\<rparr>;
                                 s3 = (if the (body_type r) = ''image''
                                       then s2\<lparr>fileQueue := fileQueue s2 @
                                              [(\<lparr>job_fileId = insertedId w, job_userId = u,
                                                 attempts = 3,
                                                 job_backoff = Backoff ''fixed'' 5000\<rparr>,
                                                queue_accepts w)]\<rparr>
                                       else s2)
                             in (\<lparr>status = 201, body = Created (insertedId w) data False\<rparr>,
                                 s3)))))"

subsection \<open>FilesController.putPublish and putUnpublish\<close>

text \<open>
  The two controllers differ in the flag they write only: \<open>setPublic E True\<close> is
  \<^verbatim>\<open>putPublish\<close> and \<open>setPublic E False\<close> is \<^verbatim>\<open>putUnpublish\<close>.
\<close>

definition setPublic :: "env \<Rightarrow> bool \<Rightarrow> req \<Rightarrow> state \<Rightarrow> response \<times> state" where
  "setPublic E b r s =
     (case token_user s r of
        None \<Rightarrow> (unauthorized, s)
      | Some u \<Rightarrow>
          (case ObjectId E (params_id r) of
             None \<Rightarrow> (internal_error, s)
           | Some fid \<Rightarrow>
               (case ObjectId E u of
                  None \<Rightarrow> (internal_error, s)
                | Some uid \<Rightarrow>
                    (case findOne (\<lambda>d. doc_id d = fid \<and> userId d = uid) (files s) of
                       None \<Rightarrow> (not_found, s)
                     | Some file \<Rightarrow>
                         let s1 = s\<lparr>files := updateOne_isPublic fid b (files s)\<rparr> in
                         (\<lparr>status = 200,
                           body = Doc (findOne (\<lambda>d. doc_id d = fid) (files s1))\<rparr>, s1)))))"

definition putPublish :: "env \<Rightarrow> req \<Rightarrow> state \<Rightarrow> response \<times> state" where
  "putPublish E r s = setPublic E True r s"

definition putUnpublish :: "env \<Rightarrow> req \<Rightarrow> state \<Rightarrow> response \<times> state" where
  "putUnpublish E r s = setPublic E False r s"

subsection \<open>FilesController.getShow\<close>

definition getShow :: "env \<Rightarrow> req \<Rightarrow> state \<Rightarrow> response \<times> state" where
  "getShow E r s =
     (case token_user s r of
        None \<Rightarrow> (unauthorized, s)
      | Some u \<Rightarrow>
          (case ObjectId E (params_id r) of
             None \<Rightarrow> (internal_error, s)
           | Some fid \<Rightarrow>
               (case ObjectId E u of
                  None \<Rightarrow> (internal_error, s)
                | Some uid \<Rightarrow>
                    (case findOne (\<lambda>d. doc_id d = fid \<and> userId d = uid) (files s) of
                       None \<Rightarrow> (not_found, s)
                     | Some file \<Rightarrow> (\<lparr>status = 200, body = Doc (Some file)\<rparr>, s)))))"

subsection \<open>FilesController.getIndex\<close>

text \<open>
  \<^verbatim>\<open>parseInt(req.query.page, 10) || 0\<close> is 0 for \<^verbatim>\<open>NaN\<close>. The store rejects a negative
  \<^verbatim>\<open>skip\<close>, which ends in the \<^verbatim>\<open>catch\<close> block.
\<close>

definition filesPerPage :: nat where
  "filesPerPage = 20"

definition getIndex :: "env \<Rightarrow> req \<Rightarrow> state \<Rightarrow> response \<times> state" where
  "getIndex E r s =
     (case token_user s r of
        None \<Rightarrow> (unauthorized, s)
      | Some u \<Rightarrow>
          let pid = or_else (query_parentId r) ''0'';
              page = (case query_page r of None \<Rightarrow> 0 | Some n \<Rightarrow> n)
          in
          (case ObjectId E u of
             None \<Rightarrow> (internal_error, s)
           | Some uid \<Rightarrow>
               (case (if pid = ''0'' then Some Root else map_option Parent (ObjectId E pid)) of
                  None \<Rightarrow> (internal_error, s)
                | Some parent \<Rightarrow>
                    if page < 0 then (internal_error, s)
                    else
                      (\<lparr>status = 200,
                        body = Docs (take filesPerPage (drop (nat page * filesPerPage)
                                 (filter (\<lambda>d. userId d = uid \<and> parentId d = parent) (files s))))\<rparr>,
                       s))))"

subsection \<open>FilesController.getFile\<close>

definition getFile :: "env \<Rightarrow> req \<Rightarrow> state \<Rightarrow> response \<times> state" where
  "getFile E r s =
     (case ObjectId E (params_id r) of
        None \<Rightarrow> (internal_error, s)
      | Some fid \<Rightarrow>
          (case findOne (\<lambda>d. doc_id d = fid) (files s) of
             None \<Rightarrow> (not_found, s)
           | Some file \<Rightarrow>
               if type file = ''folder''
               then (bad_request (''A folder doesn'' @ [CHR 0x27] @ ''t have content''), s)
               else if \<not> isPublic file \<and>
                       (case token_user s r of
                          None \<Rightarrow> True
                        | Some u \<Rightarrow> u \<noteq> oid_toString E (userId file))
                 then (not_found, s)
               else
                 (case localPath file of
                    None \<Rightarrow> (not_found, s)
                  | Some p \<Rightarrow>
                      (case disk s p of
                         None \<Rightarrow> (not_found, s)
                       | Some fileContent \<Rightarrow>
                           (\<lparr>status = 200,
                             body = File_content
                               (case mime_lookup E (name file) of
                                  None \<Rightarrow> ''application/octet-stream''
                                | Some m \<Rightarrow> m)
                               fileContent\<rparr>, s)))))"

section \<open>Runs of operations\<close>

text \<open>A request together with the controller the router hands it to, and what it draws.\<close>

datatype operation =
  GetConnect draws req
  | GetDisconnect req
  | PostNew draws req
  | GetMe req
  | PostUpload draws req
  | PutPublish req
  | PutUnpublish req
  | GetShow req
  | GetIndex req
  | GetFile req

fun run :: "env \<Rightarrow> operation \<Rightarrow> state \<Rightarrow> response \<times> state" where
  "run E (GetConnect w r) s = getConnect E w r s"
| "run E (GetDisconnect r) s = getDisconnect r s"
| "run E (PostNew w r) s = postNew E w r s"
| "run E (GetMe r) s = getMe E r s"
| "run E (PostUpload w r) s = postUpload E w r s"
| "run E (PutPublish r) s = putPublish E r s"
| "run E (PutUnpublish r) s = putUnpublish E r s"
| "run E (GetShow r) s = getShow E r s"
| "run E (GetIndex r) s = getIndex E r s"
| "run E (GetFile r) s = getFile E r s"

fun run_all :: "env \<Rightarrow> operation list \<Rightarrow> state \<Rightarrow> state" where
  "run_all E [] s = s"
| "run_all E (op # ops) s = run_all E ops (snd (run E op s))"

section \<open>The JSON of a response\<close>

text \<open>
  \<^verbatim>\<open>res.json\<close> writes the fields the object has: a stored document has the key
  \<^verbatim>\<open>localPath\<close> when it was inserted with one, and \<^verbatim>\<open>{ id, ...folderData }\<close> has the
  keys of \<^verbatim>\<open>folderData\<close> and \<^verbatim>\<open>id\<close>.
\<close>

definition json_parent :: "parent_ref \<Rightarrow> json" where
  "json_parent p = (case p of Root \<Rightarrow> JString ''0'' | Parent i \<Rightarrow> JId i)"

definition json_folderData :: "folderData \<Rightarrow> (string \<times> json) list" where
  "json_folderData d =
     [(''userId'', JId (userId d)), (''name'', JString (name d)), (''type'', JString (type d)),
      (''isPublic'', JBool (isPublic d)), (''parentId'', json_parent (parentId d))]"

definition json_doc :: "file_doc \<Rightarrow> (string \<times> json) list" where
  "json_doc d =
     (''_id'', JId (doc_id d)) #
     (case localPath d of None \<Rightarrow> [] | Some p \<Rightarrow> [(''localPath'', JString p)]) @
     json_folderData (folderData.truncate d)"

text \<open>The keys and values of a response whose body is one JSON object.\<close>

definition json_object :: "body \<Rightarrow> (string \<times> json) list option" where
  "json_object b =
     (case b of
        Error msg \<Rightarrow> Some [(''error'', JString msg)]
      | Token t \<Rightarrow> Some [(''token'', JString t)]
      | User i e \<Rightarrow> Some [(''id'', JId i), (''email'', JString e)]
      | Created i d b \<Rightarrow>
          Some ((''id'', JId i) # json_folderData d @ (if b then [(''_id'', JId i)] else []))
      | Doc (Some d) \<Rightarrow> Some (json_doc d)
      | _ \<Rightarrow> None)"

section \<open>Notions the statements use\<close>

text \<open>
  The three field checks of \<^verbatim>\<open>postUpload\<close> all pass: a name, a type among the three,
  and data unless the type is folder.
\<close>

definition fields_valid :: "req \<Rightarrow> bool" where
  "fields_valid r =
     (truthy (body_name r) \<and> truthy (body_type r)
      \<and> the (body_type r) \<in> set [''folder'', ''file'', ''image'']
      \<and> (truthy (body_data r) \<or> the (body_type r) = ''folder''))"

text \<open>
  The pieces of a successful \<^verbatim>\<open>postUpload\<close>, named after its local variables: the parent
  check, \<^verbatim>\<open>folderData\<close>, \<^verbatim>\<open>localPath\<close>, the job for an image, and the state after
  the writes. Lemma \<open>postUpload_valid\<close> below proves that \<open>postUpload\<close> is made of them.
\<close>

definition upload_parent :: "env \<Rightarrow> req \<Rightarrow> state \<Rightarrow> response + parent_ref" where
  "upload_parent E r s =
     (let pid = or_else (body_parentId r) ''0'' in
      if pid \<noteq> ''0''
      then (case ObjectId E pid of
              None \<Rightarrow> Inl internal_error
            | Some p \<Rightarrow>
                (case findOne (\<lambda>d. doc_id d = p) (files s) of
                   None \<Rightarrow> Inl (bad_request ''Parent not found'')
                 | Some parentFile \<Rightarrow>
                     if type parentFile \<noteq> ''folder''
                     then Inl (bad_request ''Parent is not a folder'')
                     else Inr (Parent p)))
      else Inr Root)"

definition folderData_of :: "req \<Rightarrow> oid \<Rightarrow> parent_ref \<Rightarrow> folderData" where
  "folderData_of r uid parent =
     \<lparr>userId = uid, name = the (body_name r), type = the (body_type r),
      isPublic = (case body_isPublic r of None \<Rightarrow> False | Some b \<Rightarrow> b), parentId = parent\<rparr>"

definition new_path :: "env \<Rightarrow> draws \<Rightarrow> string" where
  "new_path E w = path_join E (or_else (FOLDER_PATH E) ''/tmp/files_manager'') (uuidv4 w)"

definition thumbnail_job :: "oid \<Rightarrow> string \<Rightarrow> job" where
  "thumbnail_job i u =
     \<lparr>job_fileId = i, job_userId = u, attempts = 3, job_backoff = Backoff ''fixed'' 5000\<rparr>"

definition created_state :: "env \<Rightarrow> draws \<Rightarrow> req \<Rightarrow> string \<Rightarrow> folderData \<Rightarrow> state \<Rightarrow> state" where
  "created_state E w r u d s =
     (if type d = ''folder''
      then s\<lparr>files := files s @ [stored (insertedId w) None d]\<rparr>
      else s\<lparr>disk := (disk s)(new_path E w \<mapsto> base64_decode E (the (body_data r))),
             files := files s @ [stored (insertedId w) (Some (new_path E w)) d],
             fileQueue := (if type d = ''image''
                 then fileQueue s @ [(thumbnail_job (insertedId w) u, queue_accepts w)]
                 else fileQueue s)\<rparr>)"

text \<open>
  The answer of a successful \<^verbatim>\<open>getFile\<close>: status 200, the bytes, and the content type
  \<^verbatim>\<open>mime.lookup(file.name) || 'application/octet-stream'\<close>.
\<close>

definition ok_content :: "env \<Rightarrow> file_doc \<Rightarrow> bytes \<Rightarrow> response" where
  "ok_content E f c =
     \<lparr>status = 200,
      body = File_content
        (case mime_lookup E (name f) of None \<Rightarrow> ''application/octet-stream'' | Some m \<Rightarrow> m) c\<rparr>"

text \<open>The documents \<^verbatim>\<open>getIndex\<close> answers with; none when it answers with an error.\<close>

definition page_docs :: "env \<Rightarrow> req \<Rightarrow> state \<Rightarrow> file_doc list" where
  "page_docs E r s = (case body (fst (getIndex E r s)) of Docs ds \<Rightarrow> ds | _ \<Rightarrow> [])"

text \<open>Every field of a stored document but the visibility flag.\<close>

definition immutable ::
  "file_doc \<Rightarrow> oid \<times> oid \<times> string \<times> string \<times> parent_ref \<times> string option" where
  "immutable d = (doc_id d, userId d, name d, type d, parentId d, localPath d)"

section \<open>Concrete stores and requests\<close>

text \<open>
  A small instance of the library functions, two users \<^verbatim>\<open>a1\<close> and \<^verbatim>\<open>b2\<close> with the
  session tokens \<^verbatim>\<open>ta\<close> and \<^verbatim>\<open>tb\<close>, and three stores: user 1's private folder
  \<^verbatim>\<open>Docs\<close> holding the private file \<^verbatim>\<open>a.txt\<close>; a public file of user 2; and 45
  folders of user 1 at the root.
\<close>

definition demo_env :: env where
  "demo_env = \<lparr>ObjectId = map_of [(''a1'', 1), (''b2'', 2), (''f10'', 10), (''f11'', 11),
       (''f12'', 12)],
     oid_toString = (\<lambda>i. if i = 1 then ''a1'' else if i = 2 then ''b2'' else ''?''),
     mime_lookup = map_of [(''a.txt'', ''text/plain'')],
     path_join = (\<lambda>d f. d @ ''/'' @ f),
     base64_decode = (\<lambda>x. x),
     base64_ascii = (\<lambda>x. x),
     sha1 = (\<lambda>x. x),
     FOLDER_PATH = None\<rparr>"

definition demo_draws :: draws where
  "demo_draws = \<lparr>insertedId = 12, uuidv4 = ''u3'', queue_accepts = True\<rparr>"

definition anonymous :: "string \<Rightarrow> req" where
  "anonymous i = \<lparr>header_Authorization = None, header_X_Token = None, params_id = i,
     body_email = None, body_password = None, body_name = None, body_type = None,
     body_isPublic = None, body_data = None, body_parentId = None, query_parentId = None,
     query_page = None\<rparr>"

definition with_token :: "string \<Rightarrow> string \<Rightarrow> req" where
  "with_token t i = (anonymous i)\<lparr>header_X_Token := Some t\<rparr>"

definition upload ::
  "string \<Rightarrow> string option \<Rightarrow> string option \<Rightarrow> string option \<Rightarrow> string option \<Rightarrow> req" where
  "upload t n ty dat par =
     (anonymous [])\<lparr>header_X_Token := Some t, body_name := n, body_type := ty,
       body_data := dat, body_parentId := par\<rparr>"

definition listing :: "string \<Rightarrow> int \<Rightarrow> req" where
  "listing t p = (anonymous [])\<lparr>header_X_Token := Some t, query_page := Some p\<rparr>"

definition demo_folder :: file_doc where
  "demo_folder = \<lparr>userId = 1, name = ''Docs'', type = ''folder'', isPublic = False,
     parentId = Root, doc_id = 10, localPath = None\<rparr>"

definition demo_file :: file_doc where
  "demo_file = \<lparr>userId = 1, name = ''a.txt'', type = ''file'', isPublic = False,
     parentId = Parent 10, doc_id = 11, localPath = Some ''/tmp/files_manager/u1''\<rparr>"

definition demo_state :: state where
  "demo_state = \<lparr>redis = [''auth_ta'' \<mapsto> ''a1'', ''auth_tb'' \<mapsto> ''b2''],
     users = [],
     files = [demo_folder, demo_file],
     disk = [''/tmp/files_manager/u1'' \<mapsto> ''hello''],
     fileQueue = [], userQueue = []\<rparr>"

definition public_file :: file_doc where
  "public_file = \<lparr>userId = 2, name = ''b.bin'', type = ''file'', isPublic = True,
     parentId = Root, doc_id = 10, localPath = Some ''/tmp/files_manager/u2''\<rparr>"

definition public_state :: state where
  "public_state = \<lparr>redis = [''auth_ta'' \<mapsto> ''a1'', ''auth_tb'' \<mapsto> ''b2''],
     users = [],
     files = [public_file],
     disk = [''/tmp/files_manager/u2'' \<mapsto> ''bytes''],
     fileQueue = [], userQueue = []\<rparr>"

definition numbered :: "nat \<Rightarrow> file_doc" where
  "numbered i = \<lparr>userId = 1, name = ''d'', type = ''folder'', isPublic = False,
     parentId = Root, doc_id = 100 + i, localPath = None\<rparr>"

definition many_state :: state where
  "many_state = \<lparr>redis = [''auth_ta'' \<mapsto> ''a1''], users = [], files = map numbered [0..<45],
     disk = Map.empty, fileQueue = [], userQueue = []\<rparr>"

section \<open>Facts about the metadata store\<close>

lemmas demo_defs = demo_env_def demo_state_def demo_folder_def demo_file_def demo_draws_def
  upload_def with_token_def anonymous_def

lemma find_doc_id:
  "distinct (map doc_id ds) \<Longrightarrow> f \<in> set ds \<Longrightarrow> find (\<lambda>d. doc_id d = doc_id f) ds = Some f"
  by (induction ds) (auto simp: rev_image_eqI)

lemma find_doc_id_owner:
  "distinct (map doc_id ds) \<Longrightarrow> f \<in> set ds \<Longrightarrow>
   find (\<lambda>d. doc_id d = doc_id f \<and> userId d = uid) ds = (if userId f = uid then Some f else None)"
  by (induction ds) (auto simp: rev_image_eqI find_None_iff)

lemma map_doc_id_updateOne [simp]:
  "map doc_id (updateOne_isPublic i b ds) = map doc_id ds"
  by (induction ds) auto

lemma length_updateOne [simp]: "length (updateOne_isPublic i b ds) = length ds"
  by (induction ds) auto

lemma find_updateOne:
  "distinct (map doc_id ds) \<Longrightarrow> f \<in> set ds \<Longrightarrow>
   find (\<lambda>d. doc_id d = doc_id f) (updateOne_isPublic (doc_id f) b ds) = Some (f\<lparr>isPublic := b\<rparr>)"
  by (induction ds) (auto simp: rev_image_eqI)

lemma map_immutable_updateOne [simp]:
  "map immutable (updateOne_isPublic i b ds) = map immutable ds"
  by (induction ds) (auto simp: immutable_def)

section \<open>Facts about postUpload\<close>

lemma stored_sel [simp]:
  "doc_id (stored i p d) = i" "localPath (stored i p d) = p" "userId (stored i p d) = userId d"
  "name (stored i p d) = name d" "type (stored i p d) = type d"
  "isPublic (stored i p d) = isPublic d" "parentId (stored i p d) = parentId d"
  by (simp_all add: stored_def)

lemma postUpload_unauthorized:
  "token_user s r = None \<Longrightarrow> postUpload E w r s = (unauthorized, s)"
  by (simp add: postUpload_def)

lemma postUpload_invalid:
  assumes "token_user s r = Some u" "\<not> fields_valid r"
  shows "postUpload E w r s =
    (bad_request
       (if \<not> truthy (body_name r) then ''Missing name''
        else if \<not> truthy (body_type r) \<or> the (body_type r) \<notin> set [''folder'', ''file'', ''image'']
        then ''Missing type'' else ''Missing data''), s)"
  using assms by (auto simp: postUpload_def fields_valid_def)

lemma postUpload_valid:
  assumes "token_user s r = Some u" "fields_valid r"
  shows "postUpload E w r s =
    (case upload_parent E r s of
       Inl resp \<Rightarrow> (resp, s)
     | Inr parent \<Rightarrow>
         (case ObjectId E u of
            None \<Rightarrow> (internal_error, s)
          | Some uid \<Rightarrow>
              if insertedId w \<in> set (map doc_id (files s))
              then (internal_error,
                    if the (body_type r) = ''folder'' then s
                    else s\<lparr>disk := (disk s)(new_path E w \<mapsto> base64_decode E (the (body_data r)))\<rparr>)
              else (\<lparr>status = 201,
                     body = Created (insertedId w) (folderData_of r uid parent)
                              (the (body_type r) = ''folder'')\<rparr>,
                    created_state E w r u (folderData_of r uid parent) s)))"
    (is "_ = ?rhs")
proof -
  have v: "truthy (body_name r)" "truthy (body_type r)"
    "the (body_type r) \<in> set [''folder'', ''file'', ''image'']"
    "truthy (body_data r) \<or> the (body_type r) = ''folder''"
    using assms(2) by (simp_all add: fields_valid_def)
  have c: "(\<not> truthy (body_name r)) = False"
    "(\<not> truthy (body_type r) \<or> the (body_type r) \<notin> set [''folder'', ''file'', ''image'']) = False"
    "(\<not> truthy (body_data r) \<and> the (body_type r) \<noteq> ''folder'') = False"
    using v by auto
  have "postUpload E w r s =
    (case upload_parent E r s of
       Inl resp \<Rightarrow> (resp, s)
     | Inr parent \<Rightarrow>
         (case ObjectId E u of
            None \<Rightarrow> (internal_error, s)
          | Some uid \<Rightarrow>
              if the (body_type r) = ''folder''
              then (case insertOne (stored (insertedId w) None (folderData_of r uid parent)) (files s) of
                      None \<Rightarrow> (internal_error, s)
                    | Some fs \<Rightarrow>
                        (\<lparr>status = 201,
                          body = Created (insertedId w) (folderData_of r uid parent) True\<rparr>,
                         s\<lparr>files := fs\<rparr>))
              else
                (case insertOne (stored (insertedId w) (Some (new_path E w)) (folderData_of r uid parent))
                        (files s) of
                   None \<Rightarrow> (internal_error,
                     s\<lparr>disk := (disk s)(new_path E w \<mapsto> base64_decode E (the (body_data r)))\<rparr>)
                 | Some fs \<Rightarrow>
                     (\<lparr>status = 201,
                       body = Created (insertedId w) (folderData_of r uid parent) False\<rparr>,
                      s\<lparr>disk := (disk s)(new_path E w \<mapsto> base64_decode E (the (body_data r))),
                        files := fs,
                        fileQueue := (if the (body_type r) = ''image''
                           then fileQueue s @ [(thumbnail_job (insertedId w) u, queue_accepts w)]
                           else fileQueue s)\<rparr>))))"
    unfolding postUpload_def upload_parent_def folderData_of_def new_path_def thumbnail_job_def
    by (simp only: assms(1) option.case c if_False Let_def)
      (simp split: sum.split option.split)
  also have "\<dots> = ?rhs"
    by (simp add: insertOne_def created_state_def folderData_of_def split: sum.split option.split)
  finally show ?thesis .
qed

lemma postUpload_created:
  assumes "status (fst (postUpload E w r s)) = 201"
  obtains u uid parent where "token_user s r = Some u" "ObjectId E u = Some uid" "fields_valid r"
    "insertedId w \<notin> set (map doc_id (files s))" "upload_parent E r s = Inr parent"
    "postUpload E w r s =
       (\<lparr>status = 201,
         body = Created (insertedId w) (folderData_of r uid parent)
                  (the (body_type r) = ''folder'')\<rparr>,
        created_state E w r u (folderData_of r uid parent) s)"
proof -
  from assms obtain u where u: "token_user s r = Some u"
    by (cases "token_user s r") (auto simp: postUpload_unauthorized unauthorized_def)
  from assms u have v: "fields_valid r"
    by (cases "fields_valid r") (auto simp: postUpload_invalid bad_request_def)
  note eq = postUpload_valid [OF u v, of E w]
  from assms obtain parent where p: "upload_parent E r s = Inr parent"
    by (cases "upload_parent E r s")
      (auto simp: eq upload_parent_def Let_def bad_request_def internal_error_def
        split: if_splits option.splits)
  from assms p obtain uid where uid: "ObjectId E u = Some uid"
    by (cases "ObjectId E u") (auto simp: eq internal_error_def)
  from assms p uid have fresh: "insertedId w \<notin> set (map doc_id (files s))"
    by (auto simp: eq internal_error_def split: if_splits)
  show ?thesis
    using that [OF u uid v fresh p] fresh by (simp add: eq p uid)
qed

lemma postUpload_queue_outcome:
  "fst (postUpload E (w\<lparr>queue_accepts := b\<rparr>) r s) = fst (postUpload E w r s)
   \<and> files (snd (postUpload E (w\<lparr>queue_accepts := b\<rparr>) r s)) = files (snd (postUpload E w r s))
   \<and> disk (snd (postUpload E (w\<lparr>queue_accepts := b\<rparr>) r s)) = disk (snd (postUpload E w r s))"
proof (cases "token_user s r")
  case None
  then show ?thesis by (simp add: postUpload_unauthorized)
next
  case (Some u)
  show ?thesis
  proof (cases "fields_valid r")
    case False
    then show ?thesis by (simp add: postUpload_invalid [OF Some])
  next
    case True
    show ?thesis
      by (simp add: postUpload_valid [OF Some True] created_state_def new_path_def
          split: sum.split option.split)
  qed
qed

lemma demo_tokens:
  "token_user demo_state (upload ''ta'' n ty dat par) = Some ''a1''"
  "token_user demo_state (upload ''tb'' n ty dat par) = Some ''b2''"
  by (simp_all add: token_user_def redis_get_def demo_defs)

lemma demo_upload_image:
  "postUpload demo_env demo_draws
      (upload ''ta'' (Some ''pic.png'') (Some ''image'') (Some ''aGk='') None) demo_state
   = (\<lparr>status = 201,
       body = Created 12 \<lparr>userId = 1, name = ''pic.png'', type = ''image'', isPublic = False,
                parentId = Root\<rparr> False\<rparr>,
      demo_state\<lparr>disk := (disk demo_state)(''/tmp/files_manager/u3'' \<mapsto> ''aGk=''),
        files := files demo_state @
          [\<lparr>userId = 1, name = ''pic.png'', type = ''image'', isPublic = False,
            parentId = Root, doc_id = 12, localPath = Some ''/tmp/files_manager/u3''\<rparr>],
        fileQueue := [(\<lparr>job_fileId = 12, job_userId = ''a1'', attempts = 3,
                        job_backoff = Backoff ''fixed'' 5000\<rparr>, True)]\<rparr>)"
proof -
  have v: "fields_valid (upload ''ta'' (Some ''pic.png'') (Some ''image'') (Some ''aGk='') None)"
    by (simp add: fields_valid_def truthy_def upload_def)
  show ?thesis
    unfolding postUpload_valid [OF demo_tokens(1) v]
    by (simp add: upload_parent_def or_else_def created_state_def folderData_of_def new_path_def
        thumbnail_job_def stored_def demo_defs)
qed

section \<open>Facts about getIndex\<close>

lemma window_disjoint:
  assumes "distinct xs"
  shows "set (take n (drop k xs)) \<inter> set (take m (drop (k + n) xs)) = {}"
proof -
  have "distinct (drop k xs)" using assms by simp
  then have "set (take n (drop k xs)) \<inter> set (drop n (drop k xs)) = {}"
    by (rule set_take_disj_set_drop_if_distinct) simp
  moreover have "set (take m (drop (k + n) xs)) \<subseteq> set (drop n (drop k xs))"
    by (simp add: set_take_subset add.commute)
  ultimately show ?thesis by blast
qed

lemma window_subseq: "subseq (take n (drop k (filter P xs))) xs"
proof -
  have "subseq (take n (drop k (filter P xs))) (drop k (filter P xs))"
    by (simp add: prefix_imp_subseq take_is_prefix)
  also have "subseq (drop k (filter P xs)) (filter P xs)"
    by (simp add: suffix_imp_subseq suffix_drop)
  also have "subseq (filter P xs) xs" by simp
  finally show ?thesis .
qed

lemma window_append: "take n (drop k xs) @ take n (drop (k + n) xs) = take (n + n) (drop k xs)"
  by (simp add: take_add add.commute)

lemma getIndex_ok:
  assumes "token_user s r = Some u" and "ObjectId E u = Some uid"
    and "(if or_else (query_parentId r) ''0'' = ''0'' then Some Root
          else map_option Parent (ObjectId E (or_else (query_parentId r) ''0''))) = Some parent"
    and "(case query_page r of None \<Rightarrow> 0 | Some n \<Rightarrow> n) = int p"
  shows "getIndex E r s =
     (\<lparr>status = 200,
       body = Docs (take 20 (drop (p * 20)
                (filter (\<lambda>d. userId d = uid \<and> parentId d = parent) (files s))))\<rparr>, s)"
  using assms(3,4) unfolding getIndex_def Let_def
  by (simp add: assms(1,2) filesPerPage_def)

section \<open>Facts about the collection of files along a run\<close>

lemma files_getConnect: "files (snd (getConnect E w r s)) = files s"
  by (simp add: getConnect_def Let_def split: option.split list.split)

lemma files_getDisconnect: "files (snd (getDisconnect r s)) = files s"
  by (simp add: getDisconnect_def split: option.split)

lemma files_postNew: "files (snd (postNew E w r s)) = files s"
  by (simp add: postNew_def split: option.split)

lemma files_getMe: "files (snd (getMe E r s)) = files s"
  by (simp add: getMe_def split: option.split)

lemma files_getShow: "files (snd (getShow E r s)) = files s"
  by (simp add: getShow_def split: option.split)

lemma files_getIndex: "files (snd (getIndex E r s)) = files s"
  by (simp add: getIndex_def Let_def split: option.split)

lemma files_getFile: "files (snd (getFile E r s)) = files s"
  by (simp add: getFile_def split: option.split)

lemma files_setPublic:
  "files (snd (setPublic E b r s)) = files s
   \<or> (\<exists>i. files (snd (setPublic E b r s)) = updateOne_isPublic i b (files s))"
  by (auto simp: setPublic_def split: option.split)

lemma rest_setPublic:
  "snd (setPublic E b r s) = s\<lparr>files := files (snd (setPublic E b r s))\<rparr>"
  by (simp add: setPublic_def split: option.split)

lemma files_postUpload:
  "files (snd (postUpload E w r s)) = files s
   \<or> (\<exists>d. files (snd (postUpload E w r s)) = files s @ [d]
          \<and> doc_id d \<notin> set (map doc_id (files s))
          \<and> (type d = ''folder'') = (localPath d = None))"
proof (cases "token_user s r")
  case None
  then show ?thesis by (simp add: postUpload_unauthorized)
next
  case (Some u)
  show ?thesis
  proof (cases "fields_valid r")
    case False
    then show ?thesis by (simp add: postUpload_invalid [OF Some])
  next
    case True
    show ?thesis
      by (simp add: postUpload_valid [OF Some True] created_state_def folderData_of_def
          split: sum.split option.split)
  qed
qed

lemma immutable_setPublic:
  "map immutable (files (snd (setPublic E b r s))) = map immutable (files s)"
  using files_setPublic [of E b r s] by auto

lemma frame_run:
  "length (files s) \<le> length (files (snd (run E op s)))
   \<and> map immutable (take (length (files s)) (files (snd (run E op s)))) = map immutable (files s)"
proof (cases op)
  case (PostUpload w r)
  then show ?thesis using files_postUpload [of E w r s] by auto
next
  case (PutPublish r)
  then show ?thesis
    using files_setPublic [of E True r s] by (auto simp: putPublish_def)
next
  case (PutUnpublish r)
  then show ?thesis
    using files_setPublic [of E False r s] by (auto simp: putUnpublish_def)
qed (simp_all add: files_getConnect files_getDisconnect files_postNew files_getMe files_getShow
    files_getIndex files_getFile)

lemma frame_run_all:
  "length (files s) \<le> length (files (run_all E ops s))
   \<and> map immutable (take (length (files s)) (files (run_all E ops s))) = map immutable (files s)"
proof (induction ops arbitrary: s)
  case Nil
  show ?case by simp
next
  case (Cons op ops)
  let ?s1 = "snd (run E op s)"
  let ?n = "length (files s)"
  note one = frame_run [of s E op]
  note rest = Cons.IH [of ?s1]
  have le: "?n \<le> length (files ?s1)" using one by simp
  have "map immutable (take ?n (files (run_all E ops ?s1)))
          = take ?n (map immutable (take (length (files ?s1)) (files (run_all E ops ?s1))))"
    using le by (simp add: take_map min_def)
  also have "\<dots> = take ?n (map immutable (files ?s1))"
    using rest by simp
  also have "\<dots> = map immutable (files s)"
    using one by (simp add: take_map)
  finally show ?case using le rest by simp
qed

text \<open>
  Two properties of the collection that every operation keeps: ids are unique, and a
  document has a \<^verbatim>\<open>localPath\<close> exactly when it is no folder.
\<close>

lemma locator_updateOne:
  "\<forall>d\<in>set ds. (type d = ''folder'') = (localPath d = None) \<Longrightarrow>
   \<forall>d\<in>set (updateOne_isPublic i b ds). (type d = ''folder'') = (localPath d = None)"
  by (induction ds) auto

lemma store_invariant_run:
  assumes "distinct (map doc_id (files s))"
    and "\<forall>d\<in>set (files s). (type d = ''folder'') = (localPath d = None)"
  shows "distinct (map doc_id (files (snd (run E op s))))
    \<and> (\<forall>d\<in>set (files (snd (run E op s))). (type d = ''folder'') = (localPath d = None))"
proof (cases op)
  case (PostUpload w r)
  then show ?thesis using assms files_postUpload [of E w r s] by auto
next
  case (PutPublish r)
  then show ?thesis
    using assms files_setPublic [of E True r s] locator_updateOne [OF assms(2)]
    by (auto simp: putPublish_def)
next
  case (PutUnpublish r)
  then show ?thesis
    using assms files_setPublic [of E False r s] locator_updateOne [OF assms(2)]
    by (auto simp: putUnpublish_def)
qed (simp_all add: assms files_getConnect files_getDisconnect files_postNew files_getMe
    files_getShow files_getIndex files_getFile)

lemma store_invariant_run_all:
  assumes "distinct (map doc_id (files s))"
    and "\<forall>d\<in>set (files s). (type d = ''folder'') = (localPath d = None)"
  shows "distinct (map doc_id (files (run_all E ops s)))
    \<and> (\<forall>d\<in>set (files (run_all E ops s)). (type d = ''folder'') = (localPath d = None))"
  using assms
proof (induction ops arbitrary: s)
  case Nil
  then show ?case by simp
next
  case (Cons op ops)
  from store_invariant_run [OF Cons.prems, of E op]
  have "distinct (map doc_id (files (snd (run E op s))))"
    and "\<forall>d\<in>set (files (snd (run E op s))). (type d = ''folder'') = (localPath d = None)"
    by blast+
  from Cons.IH [OF this] show ?case by simp
qed

section \<open>Fetching one node\<close>

text \<open>
  C1, as the claim states it, fails: \<^verbatim>\<open>getShow\<close> looks the node up by id and owner, so a
  public node is answered 404 to a requester who is not its owner. Here user 1 asks for
  the public file of user 2.
\<close>

theorem getShow_public_counterexample:
  "public_file \<in> set (files public_state) \<and> isPublic public_file
   \<and> token_user public_state (with_token ''ta'' ''f10'') = Some ''a1''
   \<and> ObjectId demo_env ''a1'' = Some 1 \<and> userId public_file = 2
   \<and> ObjectId demo_env (params_id (with_token ''ta'' ''f10'')) = Some (doc_id public_file)
   \<and> getShow demo_env (with_token ''ta'' ''f10'') public_state = (not_found, public_state)"
  by (simp add: getShow_def token_user_def redis_get_def findOne_def public_state_def
      public_file_def with_token_def anonymous_def demo_env_def)

text \<open>
  C1, amended: for every stored node and every authenticated requester, \<^verbatim>\<open>getShow\<close>
  returns the node (status 200) exactly when the requester's user id is the node's owner
  id, and 404 Not found otherwise, whatever the visibility flag.
\<close>

theorem getShow_owner_only:
  assumes "f \<in> set (files s)" and "distinct (map doc_id (files s))"
    and "token_user s r = Some u" and "ObjectId E u = Some uid"
    and "ObjectId E (params_id r) = Some (doc_id f)"
  shows "getShow E r s =
           (if userId f = uid then (\<lparr>status = 200, body = Doc (Some f)\<rparr>, s) else (not_found, s))"
  using assms by (simp add: getShow_def findOne_def find_doc_id_owner)

theorem getShow_owner_only_witness:
  "getShow demo_env (with_token ''tb'' ''f10'') public_state
     = (\<lparr>status = 200, body = Doc (Some public_file)\<rparr>, public_state)
   \<and> getShow demo_env (with_token ''ta'' ''f11'') demo_state
     = (\<lparr>status = 200, body = Doc (Some demo_file)\<rparr>, demo_state)
   \<and> getShow demo_env (with_token ''tb'' ''f11'') demo_state = (not_found, demo_state)"
proof -
  have p: "public_file \<in> set (files public_state)" "distinct (map doc_id (files public_state))"
    by (simp_all add: public_state_def)
  have d: "demo_file \<in> set (files demo_state)" "distinct (map doc_id (files demo_state))"
    by (simp_all add: demo_state_def demo_folder_def demo_file_def)
  have tb: "token_user public_state (with_token ''tb'' ''f10'') = Some ''b2''"
    and ta': "token_user demo_state (with_token ''ta'' ''f11'') = Some ''a1''"
    and tb': "token_user demo_state (with_token ''tb'' ''f11'') = Some ''b2''"
    by (simp_all add: token_user_def redis_get_def public_state_def demo_state_def
        with_token_def anonymous_def)
  have o: "ObjectId demo_env ''b2'' = Some 2" "ObjectId demo_env ''a1'' = Some 1"
    "ObjectId demo_env (params_id (with_token ''tb'' ''f10'')) = Some (doc_id public_file)"
    "ObjectId demo_env (params_id (with_token ''ta'' ''f11'')) = Some (doc_id demo_file)"
    "ObjectId demo_env (params_id (with_token ''tb'' ''f11'')) = Some (doc_id demo_file)"
    by (simp_all add: demo_env_def with_token_def anonymous_def public_file_def demo_file_def)
  show ?thesis
    using getShow_owner_only [OF p tb o(1) o(3)] getShow_owner_only [OF d ta' o(2) o(4)]
      getShow_owner_only [OF d tb' o(1) o(5)]
    by (simp add: public_file_def demo_file_def)
qed

section \<open>Reading content\<close>

text \<open>
  C2: the content of a private file or image whose blob is on disk is returned to a caller
  whose session resolves to the owner, and every other caller, with or without a token,
  gets 404 Not found; once the owner has published the node, every caller gets the same
  bytes.
\<close>

theorem getFile_private_then_published:
  assumes "f \<in> set (files s)" and "distinct (map doc_id (files s))"
    and "type f \<noteq> ''folder''" and "\<not> isPublic f"
    and "localPath f = Some p" and "disk s p = Some c"
    and "ObjectId E (params_id r) = Some (doc_id f)"
    and "token_user s ro = Some u" and "ObjectId E u = Some (userId f)"
    and "ObjectId E (params_id ro) = Some (doc_id f)"
    and "ObjectId E (params_id r') = Some (doc_id f)"
  shows "fst (getFile E r s) =
           (if token_user s r = Some (oid_toString E (userId f)) then ok_content E f c
            else not_found)
         \<and> status (fst (putPublish E ro s)) = 200
         \<and> fst (getFile E r' (snd (putPublish E ro s))) = ok_content E f c"
proof -
  have 1: "fst (getFile E r s) =
           (if token_user s r = Some (oid_toString E (userId f)) then ok_content E f c
            else not_found)"
    using assms(1-7)
    by (auto simp: getFile_def findOne_def find_doc_id ok_content_def split: option.splits)
  have 2: "putPublish E ro s =
      (\<lparr>status = 200, body = Doc (Some (f\<lparr>isPublic := True\<rparr>))\<rparr>,
       s\<lparr>files := updateOne_isPublic (doc_id f) True (files s)\<rparr>)"
    using assms(1,2,8-10)
    by (simp add: putPublish_def setPublic_def findOne_def find_doc_id_owner find_updateOne)
  have 3: "fst (getFile E r' (snd (putPublish E ro s))) = ok_content E f c"
    using assms(1-6,11)
    by (simp add: 2 getFile_def findOne_def find_updateOne ok_content_def)
  show ?thesis using 1 2 3 by simp
qed

theorem getFile_private_then_published_witness:
  "fst (getFile demo_env (anonymous ''f11'') demo_state) = not_found
   \<and> fst (getFile demo_env (with_token ''tb'' ''f11'') demo_state) = not_found
   \<and> fst (getFile demo_env (with_token ''ta'' ''f11'') demo_state)
       = \<lparr>status = 200, body = File_content ''text/plain'' ''hello''\<rparr>
   \<and> status (fst (putPublish demo_env (with_token ''ta'' ''f11'') demo_state)) = 200
   \<and> fst (getFile demo_env (anonymous ''f11'')
        (snd (putPublish demo_env (with_token ''ta'' ''f11'') demo_state)))
       = \<lparr>status = 200, body = File_content ''text/plain'' ''hello''\<rparr>"
proof -
  have d: "demo_file \<in> set (files demo_state)" "distinct (map doc_id (files demo_state))"
    "type demo_file \<noteq> ''folder''" "\<not> isPublic demo_file"
    "localPath demo_file = Some ''/tmp/files_manager/u1''"
    "disk demo_state ''/tmp/files_manager/u1'' = Some ''hello''"
    by (simp_all add: demo_state_def demo_folder_def demo_file_def)
  have i: "\<And>h. ObjectId demo_env (params_id (with_token h ''f11'')) = Some (doc_id demo_file)"
    "ObjectId demo_env (params_id (anonymous ''f11'')) = Some (doc_id demo_file)"
    "ObjectId demo_env ''a1'' = Some (userId demo_file)"
    by (simp_all add: demo_env_def with_token_def anonymous_def demo_file_def)
  have t: "token_user demo_state (with_token ''ta'' ''f11'') = Some ''a1''"
    "token_user demo_state (with_token ''tb'' ''f11'') = Some ''b2''"
    "token_user demo_state (anonymous ''f11'') = None"
    by (simp_all add: token_user_def redis_get_def demo_state_def with_token_def anonymous_def)
  have n: "oid_toString demo_env (userId demo_file) = ''a1''"
    "mime_lookup demo_env (name demo_file) = Some ''text/plain''"
    by (simp_all add: demo_env_def demo_file_def)
  show ?thesis
    using getFile_private_then_published [OF d i(2) t(1) i(3) i(1) i(2)]
      getFile_private_then_published [OF d i(1) [of "''tb''"] t(1) i(3) i(1) i(2)]
      getFile_private_then_published [OF d i(1) [of "''ta''"] t(1) i(3) i(1) i(2)]
    by (simp add: t n ok_content_def)
qed

text \<open>
  C7: for a node of type folder, \<^verbatim>\<open>getFile\<close> answers 400 "A folder doesn't have
  content" to every caller, whatever the token and the visibility flag, and never 404.
\<close>

theorem getFile_folder:
  assumes "f \<in> set (files s)" and "distinct (map doc_id (files s))"
    and "type f = ''folder''" and "ObjectId E (params_id r) = Some (doc_id f)"
  shows "getFile E r s = (bad_request (''A folder doesn'' @ [CHR 0x27] @ ''t have content''), s)
         \<and> fst (getFile E r s) \<noteq> not_found"
  using assms by (simp add: getFile_def findOne_def find_doc_id bad_request_def not_found_def)

theorem getFile_folder_witness:
  "fst (getFile demo_env (anonymous ''f10'') demo_state) = \<lparr>status = 400, body = Error (''A folder doesn'' @ [CHR 0x27] @ ''t have content'')\<rparr>
   \<and> fst (getFile demo_env (with_token ''ta'' ''f10'') demo_state) = \<lparr>status = 400, body = Error (''A folder doesn'' @ [CHR 0x27] @ ''t have content'')\<rparr>
   \<and> fst (getFile demo_env (with_token ''tb'' ''f10'') demo_state) = \<lparr>status = 400, body = Error (''A folder doesn'' @ [CHR 0x27] @ ''t have content'')\<rparr>"
proof -
  have m: "demo_folder \<in> set (files demo_state)" "distinct (map doc_id (files demo_state))"
    "type demo_folder = ''folder''"
    by (simp_all add: demo_state_def demo_folder_def demo_file_def)
  have i: "ObjectId demo_env (params_id (anonymous ''f10'')) = Some (doc_id demo_folder)"
     "ObjectId demo_env (params_id (with_token ''ta'' ''f10'')) = Some (doc_id demo_folder)"
     "ObjectId demo_env (params_id (with_token ''tb'' ''f10'')) = Some (doc_id demo_folder)"
    by (simp_all add: demo_env_def anonymous_def with_token_def demo_folder_def)
  show ?thesis
    using getFile_folder [OF m i(1)] getFile_folder [OF m i(2)] getFile_folder [OF m i(3)]
    by (simp add: bad_request_def)
qed

section \<open>Revoking a session\<close>

text \<open>
  C3, as the claim states it, fails: the second \<^verbatim>\<open>getDisconnect\<close> with a token finds
  no user id under it and is answered 401 Unauthorized, which is an error.
\<close>

theorem getDisconnect_twice_counterexample:
  "fst (getDisconnect (with_token ''ta'' []) demo_state) = \<lparr>status = 204, body = No_body\<rparr>
   \<and> fst (getDisconnect (with_token ''ta'' [])
           (snd (getDisconnect (with_token ''ta'' []) demo_state)))
       = \<lparr>status = 401, body = Error ''Unauthorized''\<rparr>"
  by (simp add: getDisconnect_def redis_get_def redis_del_def demo_state_def with_token_def
      anonymous_def unauthorized_def)

text \<open>
  C3, amended: \<^verbatim>\<open>getDisconnect\<close> with a token that resolves answers 204 and deletes the
  mapping; a second \<^verbatim>\<open>getDisconnect\<close> with the same token is answered 401 Unauthorized
  and leaves the store as the first left it, the same as with any token that does not
  resolve. In the session store itself, deleting a key twice leaves what deleting it once
  leaves.
\<close>

theorem getDisconnect_second_unauthorized:
  "(token_user s r = None \<longrightarrow> getDisconnect r s = (unauthorized, s))
   \<and> (token_user s r \<noteq> None \<longrightarrow>
        getDisconnect r s =
          (\<lparr>status = 204, body = No_body\<rparr>,
           s\<lparr>redis := redis_del (redis s) (''auth_'' @ the (header_X_Token r))\<rparr>)
        \<and> token_user (snd (getDisconnect r s)) r = None
        \<and> getDisconnect r (snd (getDisconnect r s)) = (unauthorized, snd (getDisconnect r s)))
   \<and> redis_del (redis_del (redis s) k) k = redis_del (redis s) k"
  by (auto simp: getDisconnect_def token_user_def redis_get_def redis_del_def
      split: option.splits if_splits)

theorem getDisconnect_second_unauthorized_witness:
  "getDisconnect (with_token ''zz'' []) demo_state = (unauthorized, demo_state)
   \<and> fst (getDisconnect (with_token ''ta'' []) demo_state) = \<lparr>status = 204, body = No_body\<rparr>
   \<and> redis (snd (getDisconnect (with_token ''ta'' []) demo_state)) = [''auth_tb'' \<mapsto> ''b2'']
   \<and> getDisconnect (with_token ''ta'' []) (snd (getDisconnect (with_token ''ta'' []) demo_state))
       = (unauthorized, snd (getDisconnect (with_token ''ta'' []) demo_state))"
proof -
  have a: "token_user demo_state (with_token ''zz'' []) = None"
    and b: "token_user demo_state (with_token ''ta'' []) \<noteq> None"
    by (simp_all add: token_user_def redis_get_def demo_state_def with_token_def anonymous_def)
  have c: "redis_del (redis demo_state) (''auth_'' @ the (header_X_Token (with_token ''ta'' [])))
            = [''auth_tb'' \<mapsto> ''b2'']"
    by (auto simp: redis_del_def demo_state_def with_token_def anonymous_def)
  note z = getDisconnect_second_unauthorized [of demo_state "with_token ''zz'' []"]
  note y = getDisconnect_second_unauthorized [of demo_state "with_token ''ta'' []"]
  have 1: "getDisconnect (with_token ''zz'' []) demo_state = (unauthorized, demo_state)"
    using z a by blast
  have 2: "getDisconnect (with_token ''ta'' []) demo_state =
          (\<lparr>status = 204, body = No_body\<rparr>, demo_state\<lparr>redis := [''auth_tb'' \<mapsto> ''b2'']\<rparr>)"
    using y b c by simp
  have 3: "getDisconnect (with_token ''ta'' []) (snd (getDisconnect (with_token ''ta'' []) demo_state))
       = (unauthorized, snd (getDisconnect (with_token ''ta'' []) demo_state))"
    using y b by blast
  show ?thesis
    using 1 3 by (simp add: 2)
qed

section \<open>Creating a node\<close>

text \<open>
  C4: an authenticated \<^verbatim>\<open>postUpload\<close> reports the first failing check in the order:
  missing name, type not one of folder, file, image, missing data for a type other than
  folder, and then, only for a parent reference other than the root's \<^verbatim>\<open>'0'\<close> (here one
  that \<^verbatim>\<open>ObjectId\<close> reads as an id), Parent not found when no node has the id, and Parent is
  not a folder when the node with the id is no folder. Each answer is independent of the
  fields the later checks read, and the store is left as it was. With the root as the parent
  no answer is a 400.
\<close>

theorem postUpload_validation_order:
  assumes "token_user s r = Some u"
  shows "(\<not> truthy (body_name r) \<longrightarrow> postUpload E w r s = (bad_request ''Missing name'', s))
    \<and> (truthy (body_name r)
        \<and> (\<not> truthy (body_type r) \<or> the (body_type r) \<notin> {''folder'', ''file'', ''image''})
        \<longrightarrow> postUpload E w r s = (bad_request ''Missing type'', s))
    \<and> (truthy (body_name r) \<and> truthy (body_type r)
        \<and> the (body_type r) \<in> {''folder'', ''file'', ''image''}
        \<and> \<not> truthy (body_data r) \<and> the (body_type r) \<noteq> ''folder''
        \<longrightarrow> postUpload E w r s = (bad_request ''Missing data'', s))
    \<and> (fields_valid r \<and> or_else (body_parentId r) ''0'' \<noteq> ''0''
        \<and> ObjectId E (or_else (body_parentId r) ''0'') = Some p
        \<and> p \<notin> set (map doc_id (files s))
        \<longrightarrow> postUpload E w r s = (bad_request ''Parent not found'', s))
    \<and> (fields_valid r \<and> or_else (body_parentId r) ''0'' \<noteq> ''0''
        \<and> ObjectId E (or_else (body_parentId r) ''0'') = Some p
        \<and> findOne (\<lambda>d. doc_id d = p) (files s) = Some pf \<and> type pf \<noteq> ''folder''
        \<longrightarrow> postUpload E w r s = (bad_request ''Parent is not a folder'', s))
    \<and> (fields_valid r \<and> or_else (body_parentId r) ''0'' = ''0''
        \<longrightarrow> status (fst (postUpload E w r s)) \<noteq> 400)"
proof -
  note inv = postUpload_invalid [OF assms, of E w]
  have 1: "\<not> truthy (body_name r) \<Longrightarrow> postUpload E w r s = (bad_request ''Missing name'', s)"
    using inv by (simp add: fields_valid_def)
  have 2: "truthy (body_name r) \<Longrightarrow>
      \<not> truthy (body_type r) \<or> the (body_type r) \<notin> {''folder'', ''file'', ''image''} \<Longrightarrow>
      postUpload E w r s = (bad_request ''Missing type'', s)"
    using inv by (auto simp: fields_valid_def)
  have 3: "truthy (body_name r) \<Longrightarrow> truthy (body_type r) \<Longrightarrow>
      the (body_type r) \<in> {''folder'', ''file'', ''image''} \<Longrightarrow>
      \<not> truthy (body_data r) \<Longrightarrow> the (body_type r) \<noteq> ''folder'' \<Longrightarrow>
      postUpload E w r s = (bad_request ''Missing data'', s)"
    using inv by (auto simp: fields_valid_def)
  have none: "p \<notin> set (map doc_id (files s)) \<Longrightarrow> findOne (\<lambda>d. doc_id d = p) (files s) = None"
    by (auto simp: findOne_def find_None_iff)
  have 4: "fields_valid r \<Longrightarrow> or_else (body_parentId r) ''0'' \<noteq> ''0'' \<Longrightarrow>
      ObjectId E (or_else (body_parentId r) ''0'') = Some p \<Longrightarrow>
      p \<notin> set (map doc_id (files s)) \<Longrightarrow>
      postUpload E w r s = (bad_request ''Parent not found'', s)"
    using none by (simp add: postUpload_valid [OF assms] upload_parent_def)
  have 5: "fields_valid r \<Longrightarrow> or_else (body_parentId r) ''0'' \<noteq> ''0'' \<Longrightarrow>
      ObjectId E (or_else (body_parentId r) ''0'') = Some p \<Longrightarrow>
      findOne (\<lambda>d. doc_id d = p) (files s) = Some pf \<Longrightarrow> type pf \<noteq> ''folder'' \<Longrightarrow>
      postUpload E w r s = (bad_request ''Parent is not a folder'', s)"
    by (simp add: postUpload_valid [OF assms] upload_parent_def)
  have 6: "fields_valid r \<Longrightarrow> or_else (body_parentId r) ''0'' = ''0'' \<Longrightarrow>
      status (fst (postUpload E w r s)) \<noteq> 400"
    by (simp add: postUpload_valid [OF assms] upload_parent_def internal_error_def
        split: option.split)
  show ?thesis using 1 2 3 4 5 6 by blast
qed

theorem postUpload_validation_order_witness:
  "postUpload demo_env demo_draws (upload ''ta'' None (Some ''video'') None (Some ''f12'')) demo_state
     = (\<lparr>status = 400, body = Error ''Missing name''\<rparr>, demo_state)
   \<and> postUpload demo_env demo_draws (upload ''ta'' (Some ''x'') (Some ''video'') None (Some ''f12'')) demo_state
     = (\<lparr>status = 400, body = Error ''Missing type''\<rparr>, demo_state)
   \<and> postUpload demo_env demo_draws (upload ''ta'' (Some ''x'') (Some ''file'') None (Some ''f12'')) demo_state
     = (\<lparr>status = 400, body = Error ''Missing data''\<rparr>, demo_state)
   \<and> postUpload demo_env demo_draws (upload ''ta'' (Some ''x'') (Some ''file'') (Some ''aGk='') (Some ''f12'')) demo_state
     = (\<lparr>status = 400, body = Error ''Parent not found''\<rparr>, demo_state)
   \<and> postUpload demo_env demo_draws (upload ''ta'' (Some ''x'') (Some ''file'') (Some ''aGk='') (Some ''f11'')) demo_state
     = (\<lparr>status = 400, body = Error ''Parent is not a folder''\<rparr>, demo_state)
   \<and> status (fst (postUpload demo_env demo_draws (upload ''ta'' (Some ''x'') (Some ''file'') (Some ''aGk='') None) demo_state))
     \<noteq> 400"
proof -
  note T = postUpload_validation_order [OF demo_tokens(1), where E = demo_env and w = demo_draws]
  have 1: "postUpload demo_env demo_draws (upload ''ta'' None (Some ''video'') None (Some ''f12'')) demo_state
     = (\<lparr>status = 400, body = Error ''Missing name''\<rparr>, demo_state)"
    using T [of None "Some ''video''" None "Some ''f12''"]
    by (simp add: upload_def truthy_def bad_request_def)
  have 2: "postUpload demo_env demo_draws (upload ''ta'' (Some ''x'') (Some ''video'') None (Some ''f12'')) demo_state
     = (\<lparr>status = 400, body = Error ''Missing type''\<rparr>, demo_state)"
    using T [of "Some ''x''" "Some ''video''" None "Some ''f12''"]
    by (simp add: upload_def truthy_def bad_request_def)
  have 3: "postUpload demo_env demo_draws (upload ''ta'' (Some ''x'') (Some ''file'') None (Some ''f12'')) demo_state
     = (\<lparr>status = 400, body = Error ''Missing data''\<rparr>, demo_state)"
    using T [of "Some ''x''" "Some ''file''" None "Some ''f12''"]
    by (simp add: upload_def truthy_def bad_request_def)
  have 4: "postUpload demo_env demo_draws (upload ''ta'' (Some ''x'') (Some ''file'') (Some ''aGk='') (Some ''f12'')) demo_state
     = (\<lparr>status = 400, body = Error ''Parent not found''\<rparr>, demo_state)"
    using T [of "Some ''x''" "Some ''file''" "Some ''aGk=''" "Some ''f12''" 12]
    by (simp add: fields_valid_def or_else_def truthy_def bad_request_def demo_defs)
  have 5: "postUpload demo_env demo_draws (upload ''ta'' (Some ''x'') (Some ''file'') (Some ''aGk='') (Some ''f11'')) demo_state
     = (\<lparr>status = 400, body = Error ''Parent is not a folder''\<rparr>, demo_state)"
    using T [of "Some ''x''" "Some ''file''" "Some ''aGk=''" "Some ''f11''" 11 demo_file]
    by (simp add: fields_valid_def or_else_def truthy_def bad_request_def findOne_def demo_defs)
  have 6: "status (fst (postUpload demo_env demo_draws (upload ''ta'' (Some ''x'') (Some ''file'') (Some ''aGk='') None) demo_state))
     \<noteq> 400"
    using T [of "Some ''x''" "Some ''file''" "Some ''aGk=''" None]
    by (simp add: fields_valid_def or_else_def truthy_def upload_def)
  show ?thesis using 1 2 3 4 5 6 by blast
qed

text \<open>
  C5: a successful \<^verbatim>\<open>postUpload\<close> hands exactly one job to \<^verbatim>\<open>fileQueue.add\<close> when the
  type is image, and none otherwise. The job carries the id of the new node and the user id
  of the session, which is the owner's, with 3 attempts and a fixed backoff of 5000 ms.
  Whether the queue accepts the job changes neither the answer nor the files stored.
\<close>

theorem postUpload_thumbnail_job:
  assumes "status (fst (postUpload E w r s)) = 201" and "token_user s r = Some u"
  shows "fileQueue (snd (postUpload E w r s)) =
           (if body_type r = Some ''image''
            then fileQueue s @
              [(\<lparr>job_fileId = insertedId w, job_userId = u, attempts = 3,
                 job_backoff = Backoff ''fixed'' 5000\<rparr>, queue_accepts w)]
            else fileQueue s)
    \<and> (\<exists>d k. body (fst (postUpload E w r s)) = Created (insertedId w) d k
           \<and> ObjectId E u = Some (userId d))
    \<and> fst (postUpload E (w\<lparr>queue_accepts := b\<rparr>) r s) = fst (postUpload E w r s)
    \<and> files (snd (postUpload E (w\<lparr>queue_accepts := b\<rparr>) r s)) = files (snd (postUpload E w r s))
    \<and> disk (snd (postUpload E (w\<lparr>queue_accepts := b\<rparr>) r s)) = disk (snd (postUpload E w r s))"
proof -
  from assms(1) obtain u' uid parent where c: "token_user s r = Some u'" "ObjectId E u' = Some uid"
    "fields_valid r" "insertedId w \<notin> set (map doc_id (files s))"
    and "upload_parent E r s = Inr parent"
    and e: "postUpload E w r s =
       (\<lparr>status = 201,
         body = Created (insertedId w) (folderData_of r uid parent)
                  (the (body_type r) = ''folder'')\<rparr>,
        created_state E w r u' (folderData_of r uid parent) s)"
    by (rule postUpload_created)
  from c(1) assms(2) have u: "u' = u" by simp
  have ty: "type (folderData_of r uid parent) = the (body_type r)"
    by (simp add: folderData_of_def)
  from c(3) obtain t where t: "body_type r = Some t"
    by (cases "body_type r") (auto simp: fields_valid_def truthy_def)
  have 1: "fileQueue (snd (postUpload E w r s)) =
           (if body_type r = Some ''image''
            then fileQueue s @
              [(\<lparr>job_fileId = insertedId w, job_userId = u, attempts = 3,
                 job_backoff = Backoff ''fixed'' 5000\<rparr>, queue_accepts w)]
            else fileQueue s)"
    by (simp add: e created_state_def ty t u thumbnail_job_def)
  have 2: "\<exists>d k. body (fst (postUpload E w r s)) = Created (insertedId w) d k
           \<and> ObjectId E u = Some (userId d)"
    using c(2) u by (simp add: e folderData_of_def)
  show ?thesis using 1 2 postUpload_queue_outcome by blast
qed

theorem postUpload_thumbnail_job_witness:
  "fileQueue (snd (postUpload demo_env demo_draws
      (upload ''ta'' (Some ''pic.png'') (Some ''image'') (Some ''aGk='') None) demo_state))
    = [(\<lparr>job_fileId = 12, job_userId = ''a1'', attempts = 3,
         job_backoff = Backoff ''fixed'' 5000\<rparr>, True)]
   \<and> fst (postUpload demo_env (demo_draws\<lparr>queue_accepts := False\<rparr>)
      (upload ''ta'' (Some ''pic.png'') (Some ''image'') (Some ''aGk='') None) demo_state)
    = \<lparr>status = 201,
       body = Created 12 \<lparr>userId = 1, name = ''pic.png'', type = ''image'', isPublic = False,
                parentId = Root\<rparr> False\<rparr>"
proof -
  have ok: "status (fst (postUpload demo_env demo_draws
      (upload ''ta'' (Some ''pic.png'') (Some ''image'') (Some ''aGk='') None) demo_state)) = 201"
    by (simp add: demo_upload_image)
  have q: "fileQueue demo_state = []" "insertedId demo_draws = 12" "queue_accepts demo_draws"
    "body_type (upload ''ta'' (Some ''pic.png'') (Some ''image'') (Some ''aGk='') None)
      = Some ''image''"
    by (simp_all add: demo_defs)
  note T = postUpload_thumbnail_job [OF ok demo_tokens(1), of False]
  have 1: "fileQueue (snd (postUpload demo_env demo_draws
      (upload ''ta'' (Some ''pic.png'') (Some ''image'') (Some ''aGk='') None) demo_state))
    = [(\<lparr>job_fileId = 12, job_userId = ''a1'', attempts = 3,
         job_backoff = Backoff ''fixed'' 5000\<rparr>, True)]"
    using T by (simp add: q)
  have 2: "fst (postUpload demo_env (demo_draws\<lparr>queue_accepts := False\<rparr>)
      (upload ''ta'' (Some ''pic.png'') (Some ''image'') (Some ''aGk='') None) demo_state)
    = fst (postUpload demo_env demo_draws
      (upload ''ta'' (Some ''pic.png'') (Some ''image'') (Some ''aGk='') None) demo_state)"
    using T by blast
  show ?thesis using 1 2 by (simp add: demo_upload_image)
qed

text \<open>
  C9: \<^verbatim>\<open>postUpload\<close> with valid fields and a parent reference that names a stored folder
  succeeds for every authenticated user: the owner and the visibility flag of the folder are
  not looked at. The new node is stored with that parent and the requester as its owner.
\<close>

theorem postUpload_into_any_folder:
  assumes "token_user s r = Some u" and "ObjectId E u = Some uid" and "fields_valid r"
    and "or_else (body_parentId r) ''0'' = pid" and "pid \<noteq> ''0''"
    and "ObjectId E pid = Some (doc_id pf)"
    and "pf \<in> set (files s)" and "distinct (map doc_id (files s))" and "type pf = ''folder''"
    and "insertedId w \<notin> set (map doc_id (files s))"
  shows "fst (postUpload E w r s) =
           \<lparr>status = 201,
            body = Created (insertedId w) (folderData_of r uid (Parent (doc_id pf)))
                     (the (body_type r) = ''folder'')\<rparr>
    \<and> files (snd (postUpload E w r s)) =
        files s @ [stored (insertedId w)
                     (if the (body_type r) = ''folder'' then None else Some (new_path E w))
                     (folderData_of r uid (Parent (doc_id pf)))]"
proof -
  have "findOne (\<lambda>d. doc_id d = doc_id pf) (files s) = Some pf"
    using assms(7,8) by (simp add: findOne_def find_doc_id)
  then have "upload_parent E r s = Inr (Parent (doc_id pf))"
    using assms(4,5,6,9) by (simp add: upload_parent_def)
  then show ?thesis
    using assms(2,10)
    by (simp add: postUpload_valid [OF assms(1,3)] created_state_def folderData_of_def)
qed

theorem postUpload_into_any_folder_witness:
  "userId demo_folder \<noteq> 2 \<and> \<not> isPublic demo_folder
   \<and> fst (postUpload demo_env demo_draws
        (upload ''tb'' (Some ''b.txt'') (Some ''file'') (Some ''aGk='') (Some ''f10'')) demo_state)
     = \<lparr>status = 201,
        body = Created 12 \<lparr>userId = 2, name = ''b.txt'', type = ''file'', isPublic = False,
                 parentId = Parent 10\<rparr> False\<rparr>
   \<and> files (snd (postUpload demo_env demo_draws
        (upload ''tb'' (Some ''b.txt'') (Some ''file'') (Some ''aGk='') (Some ''f10'')) demo_state))
     = [demo_folder, demo_file,
        \<lparr>userId = 2, name = ''b.txt'', type = ''file'', isPublic = False,
         parentId = Parent 10, doc_id = 12, localPath = Some ''/tmp/files_manager/u3''\<rparr>]"
proof -
  have h: "ObjectId demo_env ''b2'' = Some 2"
    "fields_valid (upload ''tb'' (Some ''b.txt'') (Some ''file'') (Some ''aGk='') (Some ''f10''))"
    "or_else (body_parentId (upload ''tb'' (Some ''b.txt'') (Some ''file'') (Some ''aGk='')
       (Some ''f10''))) ''0'' = ''f10''"
    "''f10'' \<noteq> ''0''"
    "ObjectId demo_env ''f10'' = Some (doc_id demo_folder)"
    "demo_folder \<in> set (files demo_state)" "distinct (map doc_id (files demo_state))"
    "type demo_folder = ''folder''"
    "insertedId demo_draws \<notin> set (map doc_id (files demo_state))"
    by (simp_all add: fields_valid_def truthy_def or_else_def demo_defs)
  show ?thesis
    using postUpload_into_any_folder [OF demo_tokens(2) h]
    by (simp add: folderData_of_def new_path_def or_else_def stored_def demo_defs)
qed

text \<open>
  C10: the JSON object a successful \<^verbatim>\<open>postUpload\<close> of a file or image answers with has no
  key \<^verbatim>\<open>localPath\<close>, although the document it stored has one; for a stored file or
  image, in a collection where every document but a folder has a \<^verbatim>\<open>localPath\<close> (as
  \<open>store_invariant_run_all\<close> shows of every collection built by the operations), the
  objects \<^verbatim>\<open>getShow\<close>, \<^verbatim>\<open>putPublish\<close> and \<^verbatim>\<open>putUnpublish\<close> answer the owner with carry
  the node's \<^verbatim>\<open>localPath\<close>.
\<close>

theorem localPath_in_responses:
  assumes "status (fst (postUpload E w r s)) = 201" and "body_type r \<noteq> Some ''folder''"
    and "f \<in> set (files t)" and "distinct (map doc_id (files t))" and "type f \<noteq> ''folder''"
    and "\<forall>d\<in>set (files t). (type d = ''folder'') = (localPath d = None)"
    and "token_user t ro = Some u" and "ObjectId E u = Some (userId f)"
    and "ObjectId E (params_id ro) = Some (doc_id f)"
  shows "(\<exists>obj. json_object (body (fst (postUpload E w r s))) = Some obj
            \<and> map_of obj ''localPath'' = None)
    \<and> localPath (last (files (snd (postUpload E w r s)))) = Some (new_path E w)
    \<and> (\<exists>p. localPath f = Some p
          \<and> (\<exists>obj. json_object (body (fst (getShow E ro t))) = Some obj
                \<and> map_of obj ''localPath'' = Some (JString p))
          \<and> (\<exists>obj. json_object (body (fst (putPublish E ro t))) = Some obj
                \<and> map_of obj ''localPath'' = Some (JString p))
          \<and> (\<exists>obj. json_object (body (fst (putUnpublish E ro t))) = Some obj
                \<and> map_of obj ''localPath'' = Some (JString p)))"
proof -
  from assms(1) obtain u' uid parent where v: "fields_valid r"
    and e: "postUpload E w r s =
       (\<lparr>status = 201,
         body = Created (insertedId w) (folderData_of r uid parent)
                  (the (body_type r) = ''folder'')\<rparr>,
        created_state E w r u' (folderData_of r uid parent) s)"
    by (rule postUpload_created)
  from v assms(2) have nf: "the (body_type r) \<noteq> ''folder''"
    by (cases "body_type r") (auto simp: fields_valid_def truthy_def)
  have 1: "\<exists>obj. json_object (body (fst (postUpload E w r s))) = Some obj
            \<and> map_of obj ''localPath'' = None"
    using nf by (simp add: e json_object_def json_folderData_def)
  have 2: "localPath (last (files (snd (postUpload E w r s)))) = Some (new_path E w)"
    using nf by (simp add: e created_state_def folderData_of_def)
  from assms(3,5,6) obtain p where p: "localPath f = Some p"
    by (cases "localPath f") auto
  have 3: "\<exists>obj. json_object (body (fst (getShow E ro t))) = Some obj
            \<and> map_of obj ''localPath'' = Some (JString p)"
    using assms(3,4,7-9) p
    by (simp add: getShow_def findOne_def find_doc_id_owner json_object_def json_doc_def)
  have 4: "\<exists>obj. json_object (body (fst (setPublic E b ro t))) = Some obj
            \<and> map_of obj ''localPath'' = Some (JString p)" for b
    using assms(3,4,7-9) p
    by (simp add: setPublic_def findOne_def find_doc_id_owner find_updateOne json_object_def
        json_doc_def)
  show ?thesis using 1 2 p 3 4 [of True] 4 [of False]
    unfolding putPublish_def putUnpublish_def by blast
qed

theorem localPath_in_responses_witness:
  "json_object (body (fst (postUpload demo_env demo_draws
      (upload ''ta'' (Some ''pic.png'') (Some ''image'') (Some ''aGk='') None) demo_state)))
    = Some [(''id'', JId 12), (''userId'', JId 1), (''name'', JString ''pic.png''),
            (''type'', JString ''image''), (''isPublic'', JBool False),
            (''parentId'', JString ''0'')]
   \<and> localPath (last (files (snd (postUpload demo_env demo_draws
      (upload ''ta'' (Some ''pic.png'') (Some ''image'') (Some ''aGk='') None) demo_state))))
    = Some ''/tmp/files_manager/u3''
   \<and> (\<exists>obj. json_object (body (fst (getShow demo_env (with_token ''ta'' ''f11'') demo_state)))
          = Some obj \<and> map_of obj ''localPath'' = Some (JString ''/tmp/files_manager/u1''))
   \<and> (\<exists>obj. json_object (body (fst (putPublish demo_env (with_token ''ta'' ''f11'') demo_state)))
          = Some obj \<and> map_of obj ''localPath'' = Some (JString ''/tmp/files_manager/u1''))
   \<and> (\<exists>obj. json_object (body (fst (putUnpublish demo_env (with_token ''ta'' ''f11'') demo_state)))
          = Some obj \<and> map_of obj ''localPath'' = Some (JString ''/tmp/files_manager/u1''))"
proof -
  have ok: "status (fst (postUpload demo_env demo_draws
      (upload ''ta'' (Some ''pic.png'') (Some ''image'') (Some ''aGk='') None) demo_state)) = 201"
    by (simp add: demo_upload_image)
  have h: "body_type (upload ''ta'' (Some ''pic.png'') (Some ''image'') (Some ''aGk='') None)
      \<noteq> Some ''folder''"
    "demo_file \<in> set (files demo_state)" "distinct (map doc_id (files demo_state))"
    "type demo_file \<noteq> ''folder''"
    "\<forall>d\<in>set (files demo_state). (type d = ''folder'') = (localPath d = None)"
    "token_user demo_state (with_token ''ta'' ''f11'') = Some ''a1''"
    "ObjectId demo_env ''a1'' = Some (userId demo_file)"
    "ObjectId demo_env (params_id (with_token ''ta'' ''f11'')) = Some (doc_id demo_file)"
    by (simp_all add: token_user_def redis_get_def demo_defs)
  have j: "json_object (body (fst (postUpload demo_env demo_draws
      (upload ''ta'' (Some ''pic.png'') (Some ''image'') (Some ''aGk='') None) demo_state)))
    = Some [(''id'', JId 12), (''userId'', JId 1), (''name'', JString ''pic.png''),
            (''type'', JString ''image''), (''isPublic'', JBool False),
            (''parentId'', JString ''0'')]"
    by (simp add: demo_upload_image json_object_def json_folderData_def json_parent_def)
  have n: "new_path demo_env demo_draws = ''/tmp/files_manager/u3''"
    by (simp add: new_path_def or_else_def demo_defs)
  have l: "localPath demo_file = Some ''/tmp/files_manager/u1''"
    by (simp add: demo_file_def)
  show ?thesis
    using localPath_in_responses [OF ok h] j n l by simp
qed

section \<open>Listing nodes\<close>

text \<open>
  C6: for an authenticated user, a parent filter and a page \<open>p \<ge> 0\<close>, \<^verbatim>\<open>getIndex\<close> answers
  with the documents of that owner and parent at the positions \<open>20p\<close> to \<open>20p + 20\<close> of
  the matching documents, at most 20 of them. Pages \<open>p\<close> and \<open>p + 1\<close> share no document,
  and one after the other they are a run of 40 matching documents in the order of the
  collection, which is the order of insertion.
\<close>

theorem getIndex_pages:
  assumes "token_user s r = Some u" and "ObjectId E u = Some uid"
    and "(if or_else (query_parentId r) ''0'' = ''0'' then Some Root
          else map_option Parent (ObjectId E (or_else (query_parentId r) ''0''))) = Some parent"
    and "(case query_page r of None \<Rightarrow> 0 | Some n \<Rightarrow> n) = int p"
    and "distinct (map doc_id (files s))"
  shows "getIndex E r s = (\<lparr>status = 200, body = Docs (page_docs E r s)\<rparr>, s)
    \<and> page_docs E r s =
        take 20 (drop (p * 20) (filter (\<lambda>d. userId d = uid \<and> parentId d = parent) (files s)))
    \<and> length (page_docs E r s) \<le> 20
    \<and> set (page_docs E r s) \<inter> set (page_docs E (r\<lparr>query_page := Some (int p + 1)\<rparr>) s) = {}
    \<and> page_docs E r s @ page_docs E (r\<lparr>query_page := Some (int p + 1)\<rparr>) s =
        take 40 (drop (p * 20) (filter (\<lambda>d. userId d = uid \<and> parentId d = parent) (files s)))
    \<and> subseq (page_docs E r s @ page_docs E (r\<lparr>query_page := Some (int p + 1)\<rparr>) s) (files s)"
proof -
  let ?ms = "filter (\<lambda>d. userId d = uid \<and> parentId d = parent) (files s)"
  let ?r' = "r\<lparr>query_page := Some (int p + 1)\<rparr>"
  have d: "distinct ?ms"
    using assms(5) by (simp add: distinct_map)
  have a: "getIndex E r s = (\<lparr>status = 200, body = Docs (take 20 (drop (p * 20) ?ms))\<rparr>, s)"
    by (rule getIndex_ok [OF assms(1-4)])
  have t': "token_user s ?r' = Some u"
    using assms(1) by (simp add: token_user_def)
  have q': "(case query_page ?r' of None \<Rightarrow> 0 | Some n \<Rightarrow> n) = int (p + 1)"
    by simp
  have qp: "query_parentId ?r' = query_parentId r"
    by simp
  have p': "(if or_else (query_parentId ?r') ''0'' = ''0'' then Some Root
          else map_option Parent (ObjectId E (or_else (query_parentId ?r') ''0''))) = Some parent"
    unfolding qp by (rule assms(3))
  have b: "getIndex E ?r' s =
      (\<lparr>status = 200, body = Docs (take 20 (drop ((p + 1) * 20) ?ms))\<rparr>, s)"
    by (rule getIndex_ok [OF t' assms(2) p' q'])
  have 1: "page_docs E r s = take 20 (drop (p * 20) ?ms)"
    by (simp add: page_docs_def a)
  have 2: "page_docs E ?r' s = take 20 (drop (p * 20 + 20) ?ms)"
    unfolding page_docs_def b by (simp add: add.commute)
  have 3: "set (page_docs E r s) \<inter> set (page_docs E ?r' s) = {}"
    unfolding 1 2 by (rule window_disjoint [OF d])
  have 4: "page_docs E r s @ page_docs E ?r' s = take 40 (drop (p * 20) ?ms)"
    unfolding 1 2 by (simp add: window_append)
  have 5: "subseq (page_docs E r s @ page_docs E ?r' s) (files s)"
    unfolding 4 by (rule window_subseq)
  show ?thesis using a 1 3 4 5 by simp
qed

theorem getIndex_pages_witness:
  "getIndex demo_env (listing ''ta'' 1) many_state
     = (\<lparr>status = 200, body = Docs (map numbered [20..<40])\<rparr>, many_state)
   \<and> length (page_docs demo_env (listing ''ta'' 1) many_state) \<le> 20
   \<and> set (page_docs demo_env (listing ''ta'' 1) many_state)
       \<inter> set (page_docs demo_env (listing ''ta'' 2) many_state) = {}
   \<and> page_docs demo_env (listing ''ta'' 1) many_state
       @ page_docs demo_env (listing ''ta'' 2) many_state = map numbered [20..<45]
   \<and> subseq (map numbered [20..<45]) (map numbered [0..<45])"
proof -
  have h: "token_user many_state (listing ''ta'' 1) = Some ''a1''"
    "ObjectId demo_env ''a1'' = Some 1"
    "(if or_else (query_parentId (listing ''ta'' 1)) ''0'' = ''0'' then Some Root
      else map_option Parent (ObjectId demo_env (or_else (query_parentId (listing ''ta'' 1)) ''0'')))
     = Some Root"
    "(case query_page (listing ''ta'' 1) of None \<Rightarrow> 0 | Some n \<Rightarrow> n) = int 1"
    by (simp_all add: token_user_def redis_get_def or_else_def many_state_def listing_def
        anonymous_def demo_env_def)
  have d: "distinct (map doc_id (files many_state))"
    by (simp add: many_state_def distinct_map inj_on_def numbered_def comp_def)
  have fs: "files many_state = map numbered [0..<45]"
    by (simp add: many_state_def)
  have f: "filter (\<lambda>d. userId d = 1 \<and> parentId d = Root) (map numbered [0..<45])
            = map numbered [0..<45]"
    by (simp add: filter_map comp_def numbered_def)
  have r2: "(listing ''ta'' 1)\<lparr>query_page := Some (int 1 + 1)\<rparr> = listing ''ta'' 2"
    by (simp add: listing_def)
  have w: "take 20 (drop (1 * 20) (map numbered [0..<45])) = map numbered [20..<40]"
    "take 40 (drop (1 * 20) (map numbered [0..<45])) = map numbered [20..<45]"
    by (simp_all add: drop_map take_map)
  note T = getIndex_pages [OF h d, unfolded r2 fs f w]
  from T have a: "getIndex demo_env (listing ''ta'' 1) many_state
     = (\<lparr>status = 200, body = Docs (page_docs demo_env (listing ''ta'' 1) many_state)\<rparr>,
        many_state)"
    and b: "page_docs demo_env (listing ''ta'' 1) many_state = map numbered [20..<40]"
    and c: "length (page_docs demo_env (listing ''ta'' 1) many_state) \<le> 20"
    and e: "set (page_docs demo_env (listing ''ta'' 1) many_state)
       \<inter> set (page_docs demo_env (listing ''ta'' 2) many_state) = {}"
    and g: "page_docs demo_env (listing ''ta'' 1) many_state
       @ page_docs demo_env (listing ''ta'' 2) many_state = map numbered [20..<45]"
    and k: "subseq (page_docs demo_env (listing ''ta'' 1) many_state
       @ page_docs demo_env (listing ''ta'' 2) many_state) (map numbered [0..<45])"
    by blast+
  have a': "getIndex demo_env (listing ''ta'' 1) many_state
     = (\<lparr>status = 200, body = Docs (map numbered [20..<40])\<rparr>, many_state)"
    using a unfolding b .
  have k': "subseq (map numbered [20..<45]) (map numbered [0..<45])"
    using k unfolding g .
  show ?thesis
    by (intro conjI a' c e g k')
qed

section \<open>What an operation may change in a stored node\<close>

text \<open>
  C8: after any run of operations, every document that was stored before the run is still
  stored, at its place, with the same id, owner, name, type, parent reference and
  \<^verbatim>\<open>localPath\<close>; \<^verbatim>\<open>putPublish\<close> and \<^verbatim>\<open>putUnpublish\<close> change nothing in the stores but
  \<^verbatim>\<open>isPublic\<close> flags.
\<close>

theorem only_isPublic_changes:
  "map immutable (take (length (files s)) (files (run_all E ops s))) = map immutable (files s)
   \<and> map immutable (files (snd (putPublish E r s))) = map immutable (files s)
   \<and> map immutable (files (snd (putUnpublish E r s))) = map immutable (files s)
   \<and> snd (putPublish E r s) = s\<lparr>files := files (snd (putPublish E r s))\<rparr>
   \<and> snd (putUnpublish E r s) = s\<lparr>files := files (snd (putUnpublish E r s))\<rparr>"
  using frame_run_all [of s E ops] immutable_setPublic [of E _ r s] rest_setPublic [of E _ r s]
  unfolding putPublish_def putUnpublish_def by blast

theorem only_isPublic_changes_witness:
  "map immutable (take 2 (files (run_all demo_env
       [PutPublish (with_token ''ta'' ''f11''),
        PostUpload demo_draws (upload ''tb'' (Some ''b.txt'') (Some ''file'') (Some ''aGk='') (Some ''f10'')),
        PutUnpublish (with_token ''ta'' ''f10'')] demo_state)))
     = [(10, 1, ''Docs'', ''folder'', Root, None),
        (11, 1, ''a.txt'', ''file'', Parent 10, Some ''/tmp/files_manager/u1'')]
   \<and> map immutable (files (snd (putPublish demo_env (with_token ''ta'' ''f11'') demo_state)))
     = [(10, 1, ''Docs'', ''folder'', Root, None),
        (11, 1, ''a.txt'', ''file'', Parent 10, Some ''/tmp/files_manager/u1'')]
   \<and> map isPublic (files demo_state) = [False, False]
   \<and> map isPublic (files (snd (putPublish demo_env (with_token ''ta'' ''f11'') demo_state)))
     = [False, True]"
proof -
  have i: "map immutable (files demo_state)
     = [(10, 1, ''Docs'', ''folder'', Root, None),
        (11, 1, ''a.txt'', ''file'', Parent 10, Some ''/tmp/files_manager/u1'')]"
    "length (files demo_state) = 2" "map isPublic (files demo_state) = [False, False]"
    by (simp_all add: immutable_def demo_defs)
  have p: "map isPublic (files (snd (putPublish demo_env (with_token ''ta'' ''f11'') demo_state)))
     = [False, True]"
    by (simp add: putPublish_def setPublic_def token_user_def redis_get_def findOne_def demo_defs)
  note T = only_isPublic_changes [of demo_state demo_env
      "[PutPublish (with_token ''ta'' ''f11''),
        PostUpload demo_draws (upload ''tb'' (Some ''b.txt'') (Some ''file'') (Some ''aGk='') (Some ''f10'')),
        PutUnpublish (with_token ''ta'' ''f10'')]" "with_token ''ta'' ''f11''", unfolded i]
  from T have a: "map immutable (take 2 (files (run_all demo_env
       [PutPublish (with_token ''ta'' ''f11''),
        PostUpload demo_draws (upload ''tb'' (Some ''b.txt'') (Some ''file'') (Some ''aGk='') (Some ''f10'')),
        PutUnpublish (with_token ''ta'' ''f10'')] demo_state)))
     = [(10, 1, ''Docs'', ''folder'', Root, None),
        (11, 1, ''a.txt'', ''file'', Parent 10, Some ''/tmp/files_manager/u1'')]"
    and b: "map immutable (files (snd (putPublish demo_env (with_token ''ta'' ''f11'') demo_state)))
     = [(10, 1, ''Docs'', ''folder'', Root, None),
        (11, 1, ''a.txt'', ''file'', Parent 10, Some ''/tmp/files_manager/u1'')]"
    by blast+
  show ?thesis
    by (intro conjI a b i(3) p)
qed

end
